theory Spec2Isabelle
  imports Main
begin

chapter \<open>The gull.to mapping pipeline: parsers, normalizer, joins and transformer\<close>

text \<open>
  A shallow embedding of the ETL core of the repository: \<^verbatim>\<open>domain/types.ts\<close>,
  \<^verbatim>\<open>etl/genus-adjustments.ts\<close>, \<^verbatim>\<open>etl/csv-parser.ts\<close>, \<^verbatim>\<open>etl/join-logic.ts\<close> and
  \<^verbatim>\<open>etl/mapping-transform.ts\<close>. JavaScript strings are modelled as \<^typ>\<open>string\<close>
  (lists of 8-bit characters), arrays as lists, numbers that count as \<^typ>\<open>nat\<close>,
  a \<^verbatim>\<open>Map\<close> as an association list in insertion order, a \<^verbatim>\<open>Set\<close> as a list
  without repetition in insertion order, and a thrown \<^verbatim>\<open>Error\<close> as the left
  summand of a sum type.
\<close>

section \<open>String primitives of the language\<close>

text \<open>
  The characters that \<^verbatim>\<open>String.prototype.trim\<close> strips and the regular
  expression class \<^verbatim>\<open>\s\<close> matches, as far as they are 8-bit characters: tab, line
  feed, vertical tab, form feed, carriage return, space and no-break space.
\<close>

definition isWhiteSpace :: "char \<Rightarrow> bool" where
  "isWhiteSpace c =
     (c = CHR 0x09 \<or> c = CHR 0x0A \<or> c = CHR 0x0B \<or> c = CHR 0x0C \<or> c = CHR 0x0D \<or>
      c = CHR 0x20 \<or> c = CHR 0xA0)"

definition trim :: "string \<Rightarrow> string" where
  "trim s = rev (dropWhile isWhiteSpace (rev (dropWhile isWhiteSpace s)))"

text \<open>\<^verbatim>\<open>s.replace(/\s+/g, ' ')\<close>: every maximal run of white space becomes one space.\<close>

function replaceWhiteSpaceRuns :: "string \<Rightarrow> string" where
  "replaceWhiteSpaceRuns [] = []"
| "replaceWhiteSpaceRuns (c # cs) =
     (if isWhiteSpace c then CHR '' '' # replaceWhiteSpaceRuns (dropWhile isWhiteSpace cs)
      else c # replaceWhiteSpaceRuns cs)"
  by pat_completeness auto
termination
  by (relation "measure length") (auto simp: length_dropWhile_le less_Suc_eq_le)

text \<open>\<^verbatim>\<open>s.includes(pat)\<close>: \<open>pat\<close> occurs in \<open>s\<close> as a contiguous substring.\<close>

fun includesStr :: "string \<Rightarrow> string \<Rightarrow> bool" where
  "includesStr [] pat = (pat = [])"
| "includesStr (c # cs) pat = (take (length pat) (c # cs) = pat \<or> includesStr cs pat)"

text \<open>\<^verbatim>\<open>s.split(d)\<close> for a one-character separator; the empty string splits into
  one empty piece.\<close>

fun splitOn :: "char \<Rightarrow> string \<Rightarrow> string list" where
  "splitOn d [] = [[]]"
| "splitOn d (c # cs) =
     (if c = d then [] # splitOn d cs
      else (case splitOn d cs of [] \<Rightarrow> [[c]] | w # ws \<Rightarrow> (c # w) # ws))"

text \<open>\<^verbatim>\<open>parts.join(sep)\<close>.\<close>

fun joinWith :: "string \<Rightarrow> string list \<Rightarrow> string" where
  "joinWith sep [] = []"
| "joinWith sep [w] = w"
| "joinWith sep (w # v # ws) = w @ sep @ joinWith sep (v # ws)"

definition isUpperAZ :: "char \<Rightarrow> bool" where
  "isUpperAZ c = (65 \<le> (of_char c :: nat) \<and> (of_char c :: nat) \<le> 90)"

definition isLowerAZ :: "char \<Rightarrow> bool" where
  "isLowerAZ c = (97 \<le> (of_char c :: nat) \<and> (of_char c :: nat) \<le> 122)"

definition isDigit09 :: "char \<Rightarrow> bool" where
  "isDigit09 c = (48 \<le> (of_char c :: nat) \<and> (of_char c :: nat) \<le> 57)"

section \<open>Maps and sets of the language, in insertion order\<close>

text \<open>
  \<^verbatim>\<open>Map.prototype.set\<close> overwrites the value of a key that is present and keeps
  its place; a new key goes to the end. \<^verbatim>\<open>new Map(entries)\<close> sets the entries
  one after the other.
\<close>

fun mapSet :: "'k \<Rightarrow> 'v \<Rightarrow> ('k \<times> 'v) list \<Rightarrow> ('k \<times> 'v) list" where
  "mapSet k v [] = [(k, v)]"
| "mapSet k v (p # m) = (if fst p = k then (k, v) # m else p # mapSet k v m)"

definition mapGet :: "('k \<times> 'v) list \<Rightarrow> 'k \<Rightarrow> 'v option" where
  "mapGet m k = map_of m k"

definition mapKeys :: "('k \<times> 'v) list \<Rightarrow> 'k list" where
  "mapKeys m = map fst m"

definition mapFromEntries :: "('k \<times> 'v) list \<Rightarrow> ('k \<times> 'v) list" where
  "mapFromEntries es = foldl (\<lambda>m e. mapSet (fst e) (snd e) m) [] es"

text \<open>\<^verbatim>\<open>Set.prototype.add\<close> and \<^verbatim>\<open>has\<close>.\<close>

definition setAdd :: "'a \<Rightarrow> 'a list \<Rightarrow> 'a list" where
  "setAdd x s = (if x \<in> set s then s else s @ [x])"

definition setHas :: "'a list \<Rightarrow> 'a \<Rightarrow> bool" where
  "setHas s x = (x \<in> set s)"

section \<open>Validated string types (domain/types.ts)\<close>

datatype js_error = Error string

text \<open>\<^verbatim>\<open>String(e)\<close> for a thrown \<^verbatim>\<open>Error\<close>.\<close>

fun errorToString :: "js_error \<Rightarrow> string" where
  "errorToString (Error msg) = ''Error: '' @ msg"

text \<open>\<^verbatim>\<open>/^[A-Z]{4}$/\<close>\<close>

definition isValidAlpha4Code :: "string \<Rightarrow> bool" where
  "isValidAlpha4Code input = (length input = 4 \<and> list_all isUpperAZ input)"

text \<open>\<^verbatim>\<open>/^[a-z0-9xy]+$/.test(input) && input.length >= 4 && input.length <= 8\<close>\<close>

definition isValidEBirdCode :: "string \<Rightarrow> bool" where
  "isValidEBirdCode input =
     ((input \<noteq> [] \<and> list_all (\<lambda>c. isLowerAZ c \<or> isDigit09 c) input) \<and>
      4 \<le> length input \<and> length input \<le> 8)"

text \<open>
  \<^verbatim>\<open>/^[A-Z][a-z]+ [a-z]+$/\<close>: one capital, at least one lower-case letter, one
  space, at least one lower-case letter, and nothing else.
\<close>

definition isValidScientificName :: "string \<Rightarrow> bool" where
  "isValidScientificName input =
     (case input of
        [] \<Rightarrow> False
      | c # cs \<Rightarrow>
          isUpperAZ c \<and> takeWhile isLowerAZ cs \<noteq> [] \<and>
          (case dropWhile isLowerAZ cs of
             [] \<Rightarrow> False
           | d # species \<Rightarrow> d = CHR '' '' \<and> species \<noteq> [] \<and> list_all isLowerAZ species))"

definition createAlpha4Code :: "string \<Rightarrow> js_error + string" where
  "createAlpha4Code input =
     (if \<not> isValidAlpha4Code input
      then Inl (Error (''Invalid Alpha4Code format: '' @ input @
                       ''. Must be exactly 4 uppercase letters A-Z.''))
      else Inr input)"

definition createEBirdCode :: "string \<Rightarrow> js_error + string" where
  "createEBirdCode input =
     (if \<not> isValidEBirdCode input
      then Inl (Error (''Invalid EBirdCode format: '' @ input @
                       ''. Must be 4-8 characters: lowercase letters, numbers, and x/y prefixes.''))
      else Inr input)"

definition createScientificName :: "string \<Rightarrow> js_error + string" where
  "createScientificName input =
     (if \<not> isValidScientificName input
      then Inl (Error (''Invalid ScientificName format: '' @ input @
                       ''. Must be proper binomial nomenclature (e.g., '' @ [CHR 0x22] @
                       ''Corvus americanus'' @ [CHR 0x22] @ '').''))
      else Inr input)"

section \<open>Genus adjustments (etl/genus-adjustments.ts and its data file)\<close>

record GenusAdjustmentRule =
  rule_from :: string
  rule_to :: string
  reason :: string
  ebird_version :: string
  ibp_version :: string

record GenusAdjustmentSet =
  version :: string
  ebirdDataVersion :: string
  ibpDataVersion :: string
  rules :: "GenusAdjustmentRule list"

text \<open>The five rules of the data file (the dash of the first reason is written in ASCII).\<close>

definition GENUS_ADJUSTMENT_RULES_V1 :: "GenusAdjustmentRule list" where
  "GENUS_ADJUSTMENT_RULES_V1 =
     [\<lparr>rule_from = ''Astur cooperii'', rule_to = ''Accipiter cooperii'',
       reason = ''eBird 2024 moved Cooper's Hawk to Astur; IBP retains Accipiter - unify on Accipiter'',
       ebird_version = ''2024'', ibp_version = ''2024''\<rparr>,
      \<lparr>rule_from = ''Astur bicolor'', rule_to = ''Accipiter bicolor'',
       reason = ''Genus reassignment consistency for Bicolored Hawk'',
       ebird_version = ''2024'', ibp_version = ''2024''\<rparr>,
      \<lparr>rule_from = ''Astur chilensis'', rule_to = ''Accipiter chilensis'',
       reason = ''Genus reassignment consistency for Chilean Hawk'',
       ebird_version = ''2024'', ibp_version = ''2024''\<rparr>,
      \<lparr>rule_from = ''Astur gundlachi'', rule_to = ''Accipiter gundlachi'',
       reason = ''Genus reassignment consistency for Gundlach's Hawk'',
       ebird_version = ''2024'', ibp_version = ''2024''\<rparr>,
      \<lparr>rule_from = ''Astur gentilis'', rule_to = ''Accipiter gentilis'',
       reason = ''Genus reassignment consistency for Eurasian Goshawk'',
       ebird_version = ''2024'', ibp_version = ''2024''\<rparr>]"

definition GENUS_ADJUSTMENTS_V1 :: GenusAdjustmentSet where
  "GENUS_ADJUSTMENTS_V1 =
     \<lparr>version = ''v1.1.0'', ebirdDataVersion = ''2024'', ibpDataVersion = ''2024'',
      rules = GENUS_ADJUSTMENT_RULES_V1\<rparr>"

definition ACTIVE_GENUS_ADJUSTMENTS :: GenusAdjustmentSet where
  "ACTIVE_GENUS_ADJUSTMENTS = GENUS_ADJUSTMENTS_V1"

definition GENUS_ADJUSTMENT_MAP :: "(string \<times> string) list" where
  "GENUS_ADJUSTMENT_MAP =
     mapFromEntries (map (\<lambda>r. (rule_from r, rule_to r)) (rules ACTIVE_GENUS_ADJUSTMENTS))"

text \<open>
  \<^verbatim>\<open>table.get(scientificName) || scientificName\<close> for a table \<open>table\<close>: one lookup;
  a missing key and an empty replacement both give the name back.
\<close>

definition lookupOrSelf :: "(string \<times> string) list \<Rightarrow> string \<Rightarrow> string" where
  "lookupOrSelf table scientificName =
     (case mapGet table scientificName of
        None \<Rightarrow> scientificName
      | Some t \<Rightarrow> if t = [] then scientificName else t)"

definition applyGenusAdjustments :: "string \<Rightarrow> string" where
  "applyGenusAdjustments scientificName = lookupOrSelf GENUS_ADJUSTMENT_MAP scientificName"

section \<open>The parsers (etl/csv-parser.ts)\<close>

definition normalizeScientificName :: "string \<Rightarrow> string" where
  "normalizeScientificName name =
     (let cleaned = replaceWhiteSpaceRuns (trim name) in applyGenusAdjustments cleaned)"

record EBirdRawRecord =
  category :: string
  speciesCode :: string
  scientificName :: string
  commonName :: string

record IBPRawRecord =
  alpha4Code :: string
  scientificName_ibp :: string
  commonName_ibp :: string
  spec6Code :: string

datatype CSVValidationErrorType =
    MISSING_COLUMNS
  | INVALID_SCIENTIFIC_NAME
  | INVALID_ALPHA4_CODE
  | INVALID_EBIRD_CODE
  | EMPTY_REQUIRED_FIELD
  | MALFORMED_ROW

record CSVValidationError =
  err_type :: CSVValidationErrorType
  err_message :: string
  err_row :: nat
  err_value :: string

record CSVParseStats =
  totalRows :: nat
  validRecords :: nat
  skippedRecords :: nat
  errorRecords :: nat

record 'r CSVParseResult =
  success :: bool
  records :: "'r list"
  errors :: "CSVValidationError list"
  stats :: CSVParseStats

record EBirdParseOptions =
  filterSpeciesOnly :: "bool option"

record IBPParseOptions =
  excludeSubspecies :: "bool option"

text \<open>
  \<^verbatim>\<open>csvParse\<close> belongs to the library d3-dsv. The parsers take it as a parameter: it
  either throws, or returns one object per data row, whose properties are the columns of
  the header. A row object is a partial map from column names to field texts.
\<close>

type_synonym csv_row = "string \<Rightarrow> string option"

datatype csv_outcome = CsvThrows string | CsvRows "csv_row list"

text \<open>
  \<^verbatim>\<open>content.replace(/^[BOM]+/, '')\<close>. The byte-order mark (written BOM here, U+FEFF) is no 8-bit
  character, so no modelled string starts with one.
\<close>

definition stripBOM :: "string \<Rightarrow> string" where
  "stripBOM content = content"

text \<open>\<^verbatim>\<open>String(r[column] || '').trim()\<close>\<close>

definition fieldOf :: "csv_row \<Rightarrow> string \<Rightarrow> string" where
  "fieldOf r column = trim (case r column of None \<Rightarrow> [] | Some v \<Rightarrow> v)"

text \<open>The accumulators that the row loop of a parser updates.\<close>

record 'r ParseAcc =
  recordsAcc :: "'r list"
  errorsAcc :: "CSVValidationError list"
  validCount :: nat
  skippedCount :: nat
  errorCount :: nat

definition emptyAcc :: "'r ParseAcc" where
  "emptyAcc = \<lparr>recordsAcc = [], errorsAcc = [], validCount = 0, skippedCount = 0, errorCount = 0\<rparr>"

definition pushError :: "CSVValidationError \<Rightarrow> 'r ParseAcc \<Rightarrow> 'r ParseAcc" where
  "pushError e acc = acc\<lparr>errorCount := errorCount acc + 1, errorsAcc := errorsAcc acc @ [e]\<rparr>"

definition skipRow :: "'r ParseAcc \<Rightarrow> 'r ParseAcc" where
  "skipRow acc = acc\<lparr>skippedCount := skippedCount acc + 1\<rparr>"

definition pushRecord :: "'r \<Rightarrow> 'r ParseAcc \<Rightarrow> 'r ParseAcc" where
  "pushRecord r acc = acc\<lparr>recordsAcc := recordsAcc acc @ [r], validCount := validCount acc + 1\<rparr>"

definition zeroStats :: CSVParseStats where
  "zeroStats = \<lparr>totalRows = 0, validRecords = 0, skippedRecords = 0, errorRecords = 0\<rparr>"

definition expectedColumns :: "string list" where
  "expectedColumns =
     [''TAXON_ORDER'', ''CATEGORY'', ''SPECIES_CODE'', ''TAXON_CONCEPT_ID'', ''PRIMARY_COM_NAME'',
      ''SCI_NAME'', ''ORDER'', ''FAMILY'', ''SPECIES_GROUP'', ''REPORT_AS'']"

text \<open>
  The name check of the checklist parser: the row is a name error when the normalized
  name fails the pattern and the raw name holds none of the three markers.
\<close>

definition nameRejectedEBird :: "string \<Rightarrow> bool" where
  "nameRejectedEBird scientificNameRaw =
     (\<not> isValidScientificName (normalizeScientificName scientificNameRaw) \<and>
      \<not> includesStr scientificNameRaw '' x '' \<and>
      \<not> includesStr scientificNameRaw ''/'' \<and>
      \<not> includesStr scientificNameRaw '' sp.'')"

text \<open>The body of \<^verbatim>\<open>rows.forEach((r, idx) => ...)\<close> in \<^verbatim>\<open>parseEBirdCSV\<close>.\<close>

definition processEBirdRow ::
  "bool \<Rightarrow> EBirdRawRecord ParseAcc \<Rightarrow> nat \<times> csv_row \<Rightarrow> EBirdRawRecord ParseAcc" where
  "processEBirdRow filterOnly acc ir =
     (let idx = fst ir; r = snd ir;
          categoryRaw = fieldOf r ''CATEGORY'';
          speciesCodeRaw = fieldOf r ''SPECIES_CODE'';
          commonNameRaw = fieldOf r ''PRIMARY_COM_NAME'';
          scientificNameRaw = fieldOf r ''SCI_NAME''
      in
      if speciesCodeRaw = [] \<or> scientificNameRaw = [] then
        pushError \<lparr>err_type = EMPTY_REQUIRED_FIELD,
                   err_message = ''Missing required SPECIES_CODE or SCI_NAME'',
                   err_row = idx + 1,
                   err_value = (if speciesCodeRaw \<noteq> [] then speciesCodeRaw else scientificNameRaw)\<rparr> acc
      else if filterOnly \<and> categoryRaw \<noteq> ''species'' then skipRow acc
      else
        let normalizedScientificName = normalizeScientificName scientificNameRaw in
        if nameRejectedEBird scientificNameRaw then
          pushError \<lparr>err_type = INVALID_SCIENTIFIC_NAME,
                     err_message = ''Invalid scientific name format: '' @ scientificNameRaw,
                     err_row = idx + 1, err_value = scientificNameRaw\<rparr> acc
        else if includesStr scientificNameRaw '' sp.'' then skipRow acc
        else if \<not> isValidEBirdCode speciesCodeRaw then
          pushError \<lparr>err_type = INVALID_EBIRD_CODE,
                     err_message = ''Invalid eBird species code format: '' @ speciesCodeRaw,
                     err_row = idx + 1, err_value = speciesCodeRaw\<rparr> acc
        else
          (case createEBirdCode speciesCodeRaw of
             Inl e \<Rightarrow>
               pushError \<lparr>err_type = MALFORMED_ROW,
                          err_message = ''Failed to create record: '' @ errorToString e,
                          err_row = idx + 1, err_value = speciesCodeRaw\<rparr> acc
           | Inr code \<Rightarrow>
               (case createScientificName normalizedScientificName of
                  Inl e \<Rightarrow>
                    pushError \<lparr>err_type = MALFORMED_ROW,
                               err_message = ''Failed to create record: '' @ errorToString e,
                               err_row = idx + 1, err_value = speciesCodeRaw\<rparr> acc
                | Inr name \<Rightarrow>
                    pushRecord \<lparr>category = categoryRaw, speciesCode = code,
                                scientificName = name, commonName = commonNameRaw\<rparr> acc)))"

definition resultOfAcc :: "nat \<Rightarrow> 'r ParseAcc \<Rightarrow> 'r CSVParseResult" where
  "resultOfAcc n acc =
     \<lparr>success = (length (errorsAcc acc) = 0),
      records = recordsAcc acc,
      errors = errorsAcc acc,
      stats = \<lparr>totalRows = n, validRecords = validCount acc,
               skippedRecords = skippedCount acc, errorRecords = errorCount acc\<rparr>\<rparr>"

definition parseEBirdCSV ::
  "(string \<Rightarrow> csv_outcome) \<Rightarrow> string \<Rightarrow> EBirdParseOptions \<Rightarrow> EBirdRawRecord CSVParseResult" where
  "parseEBirdCSV csvParse csvContent options =
     (let filterOnly = (case filterSpeciesOnly options of None \<Rightarrow> False | Some b \<Rightarrow> b);
          cleanContent = stripBOM csvContent
      in
      case csvParse cleanContent of
        CsvThrows e \<Rightarrow>
          \<lparr>success = False, records = [],
           errors = [\<lparr>err_type = MALFORMED_ROW, err_message = ''Failed to parse CSV'',
                      err_row = 0, err_value = e\<rparr>],
           stats = zeroStats\<rparr>
      | CsvRows rows \<Rightarrow>
          if length rows = 0 then
            \<lparr>success = False, records = [],
             errors = [\<lparr>err_type = MALFORMED_ROW, err_message = ''CSV contains no data rows'',
                        err_row = 0, err_value = []\<rparr>],
             stats = zeroStats\<rparr>
          else
            let firstRow = (case rows of [] \<Rightarrow> Map.empty | r # _ \<Rightarrow> r);
                missingColumns = filter (\<lambda>c. firstRow c = None) expectedColumns
            in
            if length missingColumns > 0 then
              \<lparr>success = False, records = [],
               errors = [\<lparr>err_type = MISSING_COLUMNS,
                          err_message = ''Required columns missing: '' @ joinWith '', '' missingColumns,
                          err_row = 0, err_value = []\<rparr>],
               stats = \<lparr>totalRows = length rows, validRecords = 0,
                        skippedRecords = 0, errorRecords = 0\<rparr>\<rparr>
            else
              resultOfAcc (length rows)
                (foldl (processEBirdRow filterOnly) emptyAcc (enumerate 0 rows)))"

text \<open>
  \<^verbatim>\<open>/(gen\.?,?\s*sp\.?\)?)/i.test(s)\<close>: somewhere in \<open>s\<close> stands \<open>gen\<close>, then
  at most one full stop, at most one comma, any white space, and \<open>sp\<close>, in either
  case of the letters; the optional tail of the pattern always matches.
\<close>

definition startsWithCI :: "string \<Rightarrow> string \<Rightarrow> string \<Rightarrow> bool" where
  "startsWithCI lower upper s =
     (length lower \<le> length s \<and>
      list_all (\<lambda>p. fst p = fst (snd p) \<or> fst p = snd (snd p)) (zip s (zip lower upper)))"

definition dropOptional :: "char \<Rightarrow> string \<Rightarrow> string" where
  "dropOptional c s = (case s of [] \<Rightarrow> [] | d # t \<Rightarrow> if d = c then t else s)"

definition groupLevelAt :: "string \<Rightarrow> bool" where
  "groupLevelAt s =
     (startsWithCI ''gen'' ''GEN'' s \<and>
      startsWithCI ''sp'' ''SP''
        (dropWhile isWhiteSpace (dropOptional (CHR '','') (dropOptional (CHR ''.'') (drop 3 s)))))"

fun groupLevelPattern :: "string \<Rightarrow> bool" where
  "groupLevelPattern [] = groupLevelAt []"
| "groupLevelPattern (c # cs) = (groupLevelAt (c # cs) \<or> groupLevelPattern cs)"

text \<open>The body of \<^verbatim>\<open>rows.forEach((r, idx) => ...)\<close> in \<^verbatim>\<open>parseIBPCSV\<close>.\<close>

definition processIBPRow ::
  "bool \<Rightarrow> IBPRawRecord ParseAcc \<Rightarrow> nat \<times> csv_row \<Rightarrow> IBPRawRecord ParseAcc" where
  "processIBPRow exclude acc ir =
     (let idx = fst ir; r = snd ir;
          spMarker = fieldOf r ''SP'';
          alpha4CodeRaw = fieldOf r ''SPEC'';
          commonNameRaw = fieldOf r ''COMMONNAME'';
          scientificNameRaw = fieldOf r ''SCINAME'';
          spec6CodeRaw = fieldOf r ''SPEC6''
      in
      if alpha4CodeRaw = [] \<or> scientificNameRaw = [] then
        pushError \<lparr>err_type = EMPTY_REQUIRED_FIELD,
                   err_message = ''Missing required SPEC or SCINAME'',
                   err_row = idx + 1,
                   err_value = (if alpha4CodeRaw \<noteq> [] then alpha4CodeRaw else scientificNameRaw)\<rparr> acc
      else if exclude \<and> spMarker = ''+'' then skipRow acc
      else if \<not> isValidAlpha4Code alpha4CodeRaw then
        pushError \<lparr>err_type = INVALID_ALPHA4_CODE,
                   err_message = ''Invalid Alpha4Code format: '' @ alpha4CodeRaw,
                   err_row = idx + 1, err_value = alpha4CodeRaw\<rparr> acc
      else
        let normalizedScientificName = normalizeScientificName scientificNameRaw in
        if groupLevelPattern scientificNameRaw then skipRow acc
        else if \<not> isValidScientificName normalizedScientificName then
          pushError \<lparr>err_type = INVALID_SCIENTIFIC_NAME,
                     err_message = ''Invalid scientific name format: '' @ scientificNameRaw,
                     err_row = idx + 1, err_value = scientificNameRaw\<rparr> acc
        else
          (case createAlpha4Code alpha4CodeRaw of
             Inl e \<Rightarrow>
               pushError \<lparr>err_type = MALFORMED_ROW,
                          err_message = ''Failed to create record: '' @ errorToString e,
                          err_row = idx + 1, err_value = alpha4CodeRaw\<rparr> acc
           | Inr code \<Rightarrow>
               (case createScientificName normalizedScientificName of
                  Inl e \<Rightarrow>
                    pushError \<lparr>err_type = MALFORMED_ROW,
                               err_message = ''Failed to create record: '' @ errorToString e,
                               err_row = idx + 1, err_value = alpha4CodeRaw\<rparr> acc
                | Inr name \<Rightarrow>
                    pushRecord \<lparr>alpha4Code = code, scientificName_ibp = name,
                                commonName_ibp = commonNameRaw, spec6Code = spec6CodeRaw\<rparr> acc)))"

definition parseIBPCSV ::
  "(string \<Rightarrow> csv_outcome) \<Rightarrow> string \<Rightarrow> IBPParseOptions \<Rightarrow> IBPRawRecord CSVParseResult" where
  "parseIBPCSV csvParse csvContent options =
     (let exclude = (case excludeSubspecies options of None \<Rightarrow> False | Some b \<Rightarrow> b);
          cleanContent = stripBOM csvContent
      in
      case csvParse cleanContent of
        CsvThrows e \<Rightarrow>
          \<lparr>success = False, records = [],
           errors = [\<lparr>err_type = MALFORMED_ROW, err_message = ''Failed to parse CSV'',
                      err_row = 0, err_value = e\<rparr>],
           stats = zeroStats\<rparr>
      | CsvRows rows \<Rightarrow>
          if length rows = 0 then
            \<lparr>success = False, records = [],
             errors = [\<lparr>err_type = MALFORMED_ROW, err_message = ''CSV contains no data rows'',
                        err_row = 0, err_value = []\<rparr>],
             stats = zeroStats\<rparr>
          else
            resultOfAcc (length rows)
              (foldl (processIBPRow exclude) emptyAcc (enumerate 0 rows)))"

section \<open>The joins (etl/join-logic.ts)\<close>

record JoinedRecord =
  alpha4Code_j :: string
  ebird6Code :: string
  scientificName_j :: string
  commonNameEBird :: string
  commonNameIBP :: string

record JoinStatistics =
  totalEBirdRecords :: nat
  totalIBPRecords :: nat
  successfulMatches :: nat
  unmatchedEBirdRecords :: nat
  unmatchedIBPRecords :: nat
  duplicateScientificNamesCount :: nat

record JoinResult =
  successJ :: bool
  matched :: "JoinedRecord list"
  unmatchedEBird :: "EBirdRawRecord list"
  unmatchedIBP :: "IBPRawRecord list"
  duplicateScientificNames :: "string list"
  statsJ :: JoinStatistics

datatype VariantPolicy = PolicySpecies | PolicySpeciesSubspecies | PolicyAll

text \<open>\<^verbatim>\<open>JoinOptions\<close>: every option may be absent.\<close>

record JoinOptions =
  strictMode :: "bool option"
  allowPartialMatches :: "bool option"
  validateCommonNames :: "bool option"
  variantPolicy :: "VariantPolicy option"

text \<open>\<^verbatim>\<open>{ ...defaultJoinOptions, ...options }\<close>\<close>

record ResolvedJoinOptions =
  optStrictMode :: bool
  optAllowPartialMatches :: bool
  optValidateCommonNames :: bool
  optVariantPolicy :: VariantPolicy

definition defaultJoinOptions :: ResolvedJoinOptions where
  "defaultJoinOptions =
     \<lparr>optStrictMode = False, optAllowPartialMatches = True,
      optValidateCommonNames = False, optVariantPolicy = PolicyAll\<rparr>"

definition resolveOptions :: "JoinOptions \<Rightarrow> ResolvedJoinOptions" where
  "resolveOptions options =
     \<lparr>optStrictMode =
        (case strictMode options of None \<Rightarrow> optStrictMode defaultJoinOptions | Some b \<Rightarrow> b),
      optAllowPartialMatches =
        (case allowPartialMatches options of
           None \<Rightarrow> optAllowPartialMatches defaultJoinOptions | Some b \<Rightarrow> b),
      optValidateCommonNames =
        (case validateCommonNames options of
           None \<Rightarrow> optValidateCommonNames defaultJoinOptions | Some b \<Rightarrow> b),
      optVariantPolicy =
        (case variantPolicy options of
           None \<Rightarrow> optVariantPolicy defaultJoinOptions | Some p \<Rightarrow> p)\<rparr>"

definition makeJoined :: "EBirdRawRecord \<Rightarrow> IBPRawRecord \<Rightarrow> JoinedRecord" where
  "makeJoined e i =
     \<lparr>alpha4Code_j = alpha4Code i, ebird6Code = speciesCode e,
      scientificName_j = scientificName e,
      commonNameEBird = commonName e, commonNameIBP = commonName_ibp i\<rparr>"

subsection \<open>The exact join\<close>

text \<open>
  One pass of the duplicate check over the names of one side: \<open>seen\<close> is the set of
  names met so far on this side, \<open>dups\<close> the set of duplicates (shared by both sides).
\<close>

definition scanDuplicates :: "string list \<Rightarrow> string list \<Rightarrow> string list" where
  "scanDuplicates names dups =
     snd (foldl (\<lambda>sd n. (setAdd n (fst sd), if setHas (fst sd) n then setAdd n (snd sd) else snd sd))
            ([], dups) names)"

definition indexEBird :: "EBirdRawRecord list \<Rightarrow> (string \<times> EBirdRawRecord) list" where
  "indexEBird ebirdRecords = foldl (\<lambda>m r. mapSet (scientificName r) r m) [] ebirdRecords"

definition indexIBP :: "IBPRawRecord list \<Rightarrow> (string \<times> IBPRawRecord) list" where
  "indexIBP ibpRecords = foldl (\<lambda>m r. mapSet (scientificName_ibp r) r m) [] ibpRecords"

text \<open>\<^verbatim>\<open>new Set([...ebirdByScientificName.keys(), ...ibpByScientificName.keys()])\<close>\<close>

definition allScientificNames ::
  "(string \<times> EBirdRawRecord) list \<Rightarrow> (string \<times> IBPRawRecord) list \<Rightarrow> string list" where
  "allScientificNames em im = foldl (\<lambda>s k. setAdd k s) [] (mapKeys em @ mapKeys im)"

text \<open>The body of the loop over all names; the state is (matched, unmatchedEBird,
  unmatchedIBP).\<close>

definition exactStep ::
  "ResolvedJoinOptions \<Rightarrow> (string \<times> EBirdRawRecord) list \<Rightarrow> (string \<times> IBPRawRecord) list \<Rightarrow>
   JoinedRecord list \<times> EBirdRawRecord list \<times> IBPRawRecord list \<Rightarrow> string \<Rightarrow>
   JoinedRecord list \<times> EBirdRawRecord list \<times> IBPRawRecord list" where
  "exactStep opts em im st nm =
     (let m = fst st; ue = fst (snd st); ui = snd (snd st) in
      case mapGet em nm of
        Some e \<Rightarrow>
          (case mapGet im nm of
             Some i \<Rightarrow>
               if (optValidateCommonNames opts \<and> commonName e \<noteq> commonName_ibp i) \<and>
                  optStrictMode opts
               then (m, ue @ [e], ui @ [i])
               else (m @ [makeJoined e i], ue, ui)
           | None \<Rightarrow> (m, ue @ [e], ui))
      | None \<Rightarrow>
          (case mapGet im nm of
             Some i \<Rightarrow> (m, ue, ui @ [i])
           | None \<Rightarrow> (m, ue, ui)))"

definition joinByScientificName ::
  "EBirdRawRecord list \<Rightarrow> IBPRawRecord list \<Rightarrow> JoinOptions \<Rightarrow> JoinResult" where
  "joinByScientificName ebirdRecords ibpRecords options =
     (let opts = resolveOptions options in
      if length ebirdRecords = 0 \<and> length ibpRecords = 0 then
        \<lparr>successJ = True, matched = [], unmatchedEBird = [], unmatchedIBP = [],
         duplicateScientificNames = [],
         statsJ = \<lparr>totalEBirdRecords = 0, totalIBPRecords = 0, successfulMatches = 0,
                   unmatchedEBirdRecords = 0, unmatchedIBPRecords = 0,
                   duplicateScientificNamesCount = 0\<rparr>\<rparr>
      else
        let duplicates =
              scanDuplicates (map scientificName_ibp ibpRecords)
                (scanDuplicates (map scientificName ebirdRecords) [])
        in
        if optStrictMode opts \<and> length duplicates > 0 then
          \<lparr>successJ = False, matched = [], unmatchedEBird = ebirdRecords,
           unmatchedIBP = ibpRecords, duplicateScientificNames = duplicates,
           statsJ = \<lparr>totalEBirdRecords = length ebirdRecords,
                     totalIBPRecords = length ibpRecords, successfulMatches = 0,
                     unmatchedEBirdRecords = length ebirdRecords,
                     unmatchedIBPRecords = length ibpRecords,
                     duplicateScientificNamesCount = length duplicates\<rparr>\<rparr>
        else
          let ebirdByScientificName = indexEBird ebirdRecords;
              ibpByScientificName = indexIBP ibpRecords;
              st = foldl (exactStep opts ebirdByScientificName ibpByScientificName) ([], [], [])
                     (allScientificNames ebirdByScientificName ibpByScientificName);
              m = fst st; ue = fst (snd st); ui = snd (snd st)
          in
          \<lparr>successJ = (length duplicates = 0), matched = m, unmatchedEBird = ue,
           unmatchedIBP = ui, duplicateScientificNames = duplicates,
           statsJ = \<lparr>totalEBirdRecords = length ebirdRecords,
                     totalIBPRecords = length ibpRecords, successfulMatches = length m,
                     unmatchedEBirdRecords = length ue, unmatchedIBPRecords = length ui,
                     duplicateScientificNamesCount = length duplicates\<rparr>\<rparr>)"

subsection \<open>The variant-aware join\<close>

text \<open>
  \<^verbatim>\<open>consumedIBP\<close> is a \<^verbatim>\<open>Set\<close> of banding record objects: membership is object
  identity, not equality of the fields. The banding side is therefore a list of
  references into a store \<open>heap\<close> of record objects; two entries of the list are the same
  object exactly when they are the same reference.
\<close>

type_synonym ref = nat

text \<open>\<^verbatim>\<open>name.split(' ').slice(0, 2).join(' ')\<close>\<close>

definition toBinomial :: "string \<Rightarrow> string" where
  "toBinomial name = joinWith '' '' (take 2 (splitOn (CHR '' '') name))"

text \<open>\<^verbatim>\<open>m.get(k) || []\<close> for a map of arrays (an array, also an empty one, is truthy).\<close>

definition getOrEmpty :: "(string \<times> ref list) list \<Rightarrow> string \<Rightarrow> ref list" where
  "getOrEmpty m k = (case mapGet m k of None \<Rightarrow> [] | Some l \<Rightarrow> l)"

text \<open>The two indexes of the banding side, (ibpFull, ibpByBinomial), are built in one
  loop; this is its body.\<close>

definition indexVariantsStep ::
  "(ref \<Rightarrow> IBPRawRecord) \<Rightarrow> (string \<times> ref list) list \<times> (string \<times> ref list) list \<Rightarrow> ref \<Rightarrow>
   (string \<times> ref list) list \<times> (string \<times> ref list) list" where
  "indexVariantsStep heap ix r =
     (let nm = scientificName_ibp (heap r); bin = toBinomial nm in
      (mapSet nm (getOrEmpty (fst ix) nm @ [r]) (fst ix),
       mapSet bin (getOrEmpty (snd ix) bin @ [r]) (snd ix)))"

definition indexVariants ::
  "(ref \<Rightarrow> IBPRawRecord) \<Rightarrow> ref list \<Rightarrow> (string \<times> ref list) list \<times> (string \<times> ref list) list" where
  "indexVariants heap ibpRecords = foldl (indexVariantsStep heap) ([], []) ibpRecords"

definition rank :: "EBirdRawRecord \<Rightarrow> nat" where
  "rank r = (if category r = ''species'' then 0 else if category r = ''issf'' then 1 else 2)"

text \<open>
  \<^verbatim>\<open>[...ebirdRecords].sort((a, b) => rank(a) - rank(b))\<close>. The language defines
  \<^verbatim>\<open>Array.prototype.sort\<close> as a stable sort; insertion sort by the key is one.
\<close>

definition ebirdSorted :: "EBirdRawRecord list \<Rightarrow> EBirdRawRecord list" where
  "ebirdSorted ebirdRecords = sort_key rank ebirdRecords"

text \<open>The two \<^verbatim>\<open>continue\<close> guards of the variant policy.\<close>

definition policySkips :: "VariantPolicy \<Rightarrow> EBirdRawRecord \<Rightarrow> bool" where
  "policySkips pol e =
     ((pol = PolicySpecies \<and> category e \<noteq> ''species'') \<or>
      (pol = PolicySpeciesSubspecies \<and> \<not> (category e = ''species'' \<or> category e = ''issf'')))"

text \<open>
  The choice for one checklist record: the first banding record of its full name that
  is not consumed, and only if there is none, the first one of its binomial bucket that is
  not consumed.
\<close>

definition chooseIBP ::
  "(string \<times> ref list) list \<Rightarrow> (string \<times> ref list) list \<Rightarrow> ref list \<Rightarrow> EBirdRawRecord \<Rightarrow>
   ref option" where
  "chooseIBP ibpFull ibpByBinomial consumedIBP e =
     (let ibpExact = getOrEmpty ibpFull (scientificName e) in
      case find (\<lambda>r. \<not> setHas consumedIBP r) ibpExact of
        Some r \<Rightarrow> Some r
      | None \<Rightarrow>
          (let bin = toBinomial (scientificName e);
               bucket = getOrEmpty ibpByBinomial bin
           in find (\<lambda>r. \<not> setHas consumedIBP r) bucket))"

text \<open>The body of the loop over the sorted checklist records; the state is
  (matched, unmatchedEBird, consumedIBP).\<close>

definition variantStep ::
  "VariantPolicy \<Rightarrow> (ref \<Rightarrow> IBPRawRecord) \<Rightarrow> (string \<times> ref list) list \<Rightarrow>
   (string \<times> ref list) list \<Rightarrow>
   JoinedRecord list \<times> EBirdRawRecord list \<times> ref list \<Rightarrow> EBirdRawRecord \<Rightarrow>
   JoinedRecord list \<times> EBirdRawRecord list \<times> ref list" where
  "variantStep pol heap ibpFull ibpByBinomial st e =
     (let m = fst st; ue = fst (snd st); consumedIBP = snd (snd st) in
      if policySkips pol e then st
      else
        case chooseIBP ibpFull ibpByBinomial consumedIBP e of
          Some chosen \<Rightarrow> (m @ [makeJoined e (heap chosen)], ue, setAdd chosen consumedIBP)
        | None \<Rightarrow> (m, ue @ [e], consumedIBP))"

definition variantLoop ::
  "(ref \<Rightarrow> IBPRawRecord) \<Rightarrow> EBirdRawRecord list \<Rightarrow> ref list \<Rightarrow> JoinOptions \<Rightarrow>
   JoinedRecord list \<times> EBirdRawRecord list \<times> ref list" where
  "variantLoop heap ebirdRecords ibpRecords options =
     (let ix = indexVariants heap ibpRecords in
      foldl (variantStep (optVariantPolicy (resolveOptions options)) heap (fst ix) (snd ix))
        ([], [], []) (ebirdSorted ebirdRecords))"

definition joinByScientificNameVariants ::
  "(ref \<Rightarrow> IBPRawRecord) \<Rightarrow> EBirdRawRecord list \<Rightarrow> ref list \<Rightarrow> JoinOptions \<Rightarrow> JoinResult" where
  "joinByScientificNameVariants heap ebirdRecords ibpRecords options =
     (let st = variantLoop heap ebirdRecords ibpRecords options;
          m = fst st; ue = fst (snd st); consumedIBP = snd (snd st);
          ui = filter (\<lambda>r. \<not> setHas consumedIBP r) ibpRecords
      in
      \<lparr>successJ = True, matched = m, unmatchedEBird = ue, unmatchedIBP = map heap ui,
       duplicateScientificNames = [],
       statsJ = \<lparr>totalEBirdRecords = length ebirdRecords, totalIBPRecords = length ibpRecords,
                 successfulMatches = length m, unmatchedEBirdRecords = length ue,
                 unmatchedIBPRecords = length ui, duplicateScientificNamesCount = 0\<rparr>\<rparr>)"

section \<open>The transformer (etl/mapping-transform.ts)\<close>

record MappingRecord =
  alpha4 :: string
  ebird6 :: string
  common_name :: string
  scientific_name :: string
  source :: string
  source_version :: string
  updated_at :: string

datatype CommonNameSource = PreferEBird | PreferIBP

record MappingTransformOptions =
  optSource :: string
  optSourceVersion :: string
  optUpdatedAt :: string
  preferredCommonNameSource :: "CommonNameSource option"

datatype MappingValidationErrorType =
    MISSING_REQUIRED_FIELD
  | INVALID_FIELD_FORMAT
  | INVALID_DATE_FORMAT
  | DUPLICATE_ALPHA4_CODE
  | INVALID_SOURCE_METADATA

record MappingValidationError =
  verr_type :: MappingValidationErrorType
  verr_field :: string
  verr_message :: string
  verr_value :: string

record SchemaValidationResult =
  valid :: bool
  schemaErrors :: "MappingValidationError list"

record MappingTransformStats =
  totalInputRecords :: nat
  successfulTransformations :: nat
  validationErrors :: nat
  nameConflicts :: nat
  duplicateAlpha4Codes :: nat

record MappingTransformMetadata =
  sourceInfoSource :: string
  sourceInfoVersion :: string
  transformedAt :: string
  recordCount :: nat

record MappingTransformResult =
  successT :: bool
  mappingRecords :: "MappingRecord list"
  errorsT :: "MappingValidationError list"
  statsT :: MappingTransformStats
  metadata :: MappingTransformMetadata

text \<open>\<^verbatim>\<open>mapping[field]\<close> for the seven fields of a mapping record.\<close>

definition mappingField :: "MappingRecord \<Rightarrow> string \<Rightarrow> string" where
  "mappingField mapping field =
     (if field = ''alpha4'' then alpha4 mapping
      else if field = ''ebird6'' then ebird6 mapping
      else if field = ''common_name'' then common_name mapping
      else if field = ''scientific_name'' then scientific_name mapping
      else if field = ''source'' then source mapping
      else if field = ''source_version'' then source_version mapping
      else if field = ''updated_at'' then updated_at mapping
      else [])"

definition requiredFields :: "string list" where
  "requiredFields =
     [''alpha4'', ''ebird6'', ''common_name'', ''scientific_name'', ''source'',
      ''source_version'', ''updated_at'']"

text \<open>
  \<^verbatim>\<open>validateMappingSchema\<close> on a record whose seven fields are strings.
  \<^verbatim>\<open>Date.parse\<close> is the language's; \<open>dateIsNaN s\<close> stands for
  \<^verbatim>\<open>isNaN(Date.parse(s))\<close> and is a parameter.
\<close>

definition validateMappingSchema ::
  "(string \<Rightarrow> bool) \<Rightarrow> MappingRecord \<Rightarrow> SchemaValidationResult" where
  "validateMappingSchema dateIsNaN mapping =
     (let e1 = concat (map (\<lambda>field.
                 if mappingField mapping field = []
                 then [\<lparr>verr_type = MISSING_REQUIRED_FIELD, verr_field = field,
                        verr_message = ''Required field ''@ [CHR 0x27] @ field @ [CHR 0x27] @
                                       '' is missing or empty'',
                        verr_value = mappingField mapping field\<rparr>]
                 else []) requiredFields);
          e2 = (if \<not> isValidAlpha4Code (alpha4 mapping)
                then [\<lparr>verr_type = INVALID_FIELD_FORMAT, verr_field = ''alpha4'',
                       verr_message = ''Invalid alpha4 format: '' @ alpha4 mapping @
                                      ''. Must be exactly 4 uppercase letters A-Z.'',
                       verr_value = alpha4 mapping\<rparr>]
                else []);
          e3 = (if \<not> isValidEBirdCode (ebird6 mapping)
                then [\<lparr>verr_type = INVALID_FIELD_FORMAT, verr_field = ''ebird6'',
                       verr_message = ''Invalid ebird6 format: '' @ ebird6 mapping @
                                      ''. Must be 4-8 characters: lowercase letters, numbers, x/y.'',
                       verr_value = ebird6 mapping\<rparr>]
                else []);
          e4 = (if \<not> isValidScientificName (scientific_name mapping)
                then [\<lparr>verr_type = INVALID_FIELD_FORMAT, verr_field = ''scientific_name'',
                       verr_message = ''Invalid scientific name format: '' @ scientific_name mapping @
                                      ''. Must be proper binomial nomenclature.'',
                       verr_value = scientific_name mapping\<rparr>]
                else []);
          e5 = (if dateIsNaN (updated_at mapping)
                then [\<lparr>verr_type = INVALID_DATE_FORMAT, verr_field = ''updated_at'',
                       verr_message = ''Invalid ISO date format: '' @ updated_at mapping,
                       verr_value = updated_at mapping\<rparr>]
                else []);
          errs = e1 @ e2 @ e3 @ e4 @ e5
      in \<lparr>valid = (length errs = 0), schemaErrors = errs\<rparr>)"

text \<open>The accumulators that the loop of the transformer updates.\<close>

record TransformAcc =
  mappingAcc :: "MappingRecord list"
  errorAcc :: "MappingValidationError list"
  seenAlpha4Codes :: "string list"
  successfulAcc :: nat
  validationAcc :: nat
  conflictAcc :: nat
  duplicateAcc :: nat

definition emptyTransformAcc :: TransformAcc where
  "emptyTransformAcc =
     \<lparr>mappingAcc = [], errorAcc = [], seenAlpha4Codes = [], successfulAcc = 0,
      validationAcc = 0, conflictAcc = 0, duplicateAcc = 0\<rparr>"

text \<open>
  The body of \<^verbatim>\<open>for (const joinedRecord of joinedRecords)\<close>. A joined record is an
  object with five string fields, so the guard for a record that is no object never fires
  and nothing in the body throws; \<^verbatim>\<open>String(joinedRecord.alpha4Code || '')\<close> is the
  code itself.
\<close>

definition transformStep ::
  "(string \<Rightarrow> bool) \<Rightarrow> MappingTransformOptions \<Rightarrow> TransformAcc \<Rightarrow> JoinedRecord \<Rightarrow> TransformAcc" where
  "transformStep dateIsNaN options acc joinedRecord =
     (let alpha4Str = alpha4Code_j joinedRecord in
      if setHas (seenAlpha4Codes acc) alpha4Str then
        acc\<lparr>errorAcc := errorAcc acc @
               [\<lparr>verr_type = DUPLICATE_ALPHA4_CODE, verr_field = ''alpha4Code'',
                 verr_message = ''Duplicate alpha4 code found: '' @ alpha4Str,
                 verr_value = alpha4Str\<rparr>],
            duplicateAcc := duplicateAcc acc + 1\<rparr>
      else
        let acc1 = acc\<lparr>seenAlpha4Codes := setAdd alpha4Str (seenAlpha4Codes acc)\<rparr>;
            conflict = (commonNameEBird joinedRecord \<noteq> commonNameIBP joinedRecord);
            acc2 = (if conflict then acc1\<lparr>conflictAcc := conflictAcc acc1 + 1\<rparr> else acc1);
            commonNameChosen =
              (if conflict then
                 (if preferredCommonNameSource options = Some PreferIBP
                  then commonNameIBP joinedRecord else commonNameEBird joinedRecord)
               else commonNameEBird joinedRecord);
            mappingRecord =
              \<lparr>alpha4 = alpha4Code_j joinedRecord, ebird6 = ebird6Code joinedRecord,
               common_name = commonNameChosen, scientific_name = scientificName_j joinedRecord,
               source = optSource options, source_version = optSourceVersion options,
               updated_at = optUpdatedAt options\<rparr>;
            validation = validateMappingSchema dateIsNaN mappingRecord
        in
        if \<not> valid validation then
          acc2\<lparr>errorAcc := errorAcc acc2 @ schemaErrors validation,
               validationAcc := validationAcc acc2 + 1\<rparr>
        else
          acc2\<lparr>mappingAcc := mappingAcc acc2 @ [mappingRecord],
               successfulAcc := successfulAcc acc2 + 1\<rparr>)"

text \<open>
  \<^verbatim>\<open>transformToMappingRecords\<close>. \<open>now\<close> stands for
  \<^verbatim>\<open>new Date().toISOString()\<close>, the time of the call.
\<close>

definition transformToMappingRecords ::
  "(string \<Rightarrow> bool) \<Rightarrow> string \<Rightarrow> JoinedRecord list \<Rightarrow> MappingTransformOptions \<Rightarrow>
   MappingTransformResult" where
  "transformToMappingRecords dateIsNaN now joinedRecords options =
     (let o1 = (if optSource options = [] \<or> trim (optSource options) = []
                then [\<lparr>verr_type = INVALID_SOURCE_METADATA, verr_field = ''source'',
                       verr_message = ''Source field is required and cannot be empty'',
                       verr_value = optSource options\<rparr>]
                else []);
          o2 = (if optSourceVersion options = [] \<or> trim (optSourceVersion options) = []
                then [\<lparr>verr_type = INVALID_SOURCE_METADATA, verr_field = ''sourceVersion'',
                       verr_message = ''Source version is required and cannot be empty'',
                       verr_value = optSourceVersion options\<rparr>]
                else []);
          o3 = (if optUpdatedAt options = [] \<or> dateIsNaN (optUpdatedAt options)
                then [\<lparr>verr_type = INVALID_SOURCE_METADATA, verr_field = ''updatedAt'',
                       verr_message = ''Updated at must be a valid ISO date string'',
                       verr_value = optUpdatedAt options\<rparr>]
                else []);
          optionsErrors = o1 @ o2 @ o3
      in
      if length optionsErrors > 0 then
        \<lparr>successT = False, mappingRecords = [], errorsT = optionsErrors,
         statsT = \<lparr>totalInputRecords = length joinedRecords, successfulTransformations = 0,
                   validationErrors = length optionsErrors, nameConflicts = 0,
                   duplicateAlpha4Codes = 0\<rparr>,
         metadata = \<lparr>sourceInfoSource =
                       (if optSource options \<noteq> [] then optSource options else ''unknown''),
                     sourceInfoVersion =
                       (if optSourceVersion options \<noteq> [] then optSourceVersion options
                        else ''unknown''),
                     transformedAt = now, recordCount = 0\<rparr>\<rparr>
      else if length joinedRecords = 0 then
        \<lparr>successT = True, mappingRecords = [], errorsT = [],
         statsT = \<lparr>totalInputRecords = 0, successfulTransformations = 0,
                   validationErrors = 0, nameConflicts = 0, duplicateAlpha4Codes = 0\<rparr>,
         metadata = \<lparr>sourceInfoSource = optSource options,
                     sourceInfoVersion = optSourceVersion options,
                     transformedAt = now, recordCount = 0\<rparr>\<rparr>
      else
        let acc = foldl (transformStep dateIsNaN options) emptyTransformAcc joinedRecords in
        \<lparr>successT = (length (errorAcc acc) = 0), mappingRecords = mappingAcc acc,
         errorsT = errorAcc acc,
         statsT = \<lparr>totalInputRecords = length joinedRecords,
                   successfulTransformations = successfulAcc acc,
                   validationErrors = validationAcc acc, nameConflicts = conflictAcc acc,
                   duplicateAlpha4Codes = duplicateAcc acc\<rparr>,
         metadata = \<lparr>sourceInfoSource = optSource options,
                     sourceInfoVersion = optSourceVersion options,
                     transformedAt = now, recordCount = length (mappingAcc acc)\<rparr>\<rparr>)"

section \<open>Notions used in the statements and proofs\<close>

text \<open>A string that neither starts nor ends with white space.\<close>

definition noLeadWs :: "string \<Rightarrow> bool" where
  "noLeadWs s = (s = [] \<or> \<not> isWhiteSpace (hd s))"

definition noTrailWs :: "string \<Rightarrow> bool" where
  "noTrailWs s = (s = [] \<or> \<not> isWhiteSpace (last s))"

text \<open>The invariant of the transformer's loop: the emitted keys are distinct and all
  of them are in the set of seen keys.\<close>

definition alpha4Inv :: "TransformAcc \<Rightarrow> bool" where
  "alpha4Inv acc =
     (distinct (map alpha4 (mappingAcc acc)) \<and>
      set (map alpha4 (mappingAcc acc)) \<subseteq> set (seenAlpha4Codes acc))"

subsection \<open>Concrete inputs\<close>

text \<open>Run metadata of a build, and a stand-in for \<^verbatim>\<open>isNaN(Date.parse(s))\<close> that
  accepts the one time stamp used here.\<close>

definition exOptions :: MappingTransformOptions where
  "exOptions =
     \<lparr>optSource = ''etl-build'', optSourceVersion = ''2024.09'',
      optUpdatedAt = ''2024-09-08T00:00:00.000Z'', preferredCommonNameSource = None\<rparr>"

definition exDateIsNaN :: "string \<Rightarrow> bool" where
  "exDateIsNaN s = (s \<noteq> ''2024-09-08T00:00:00.000Z'')"

text \<open>Two joined pairs with different keys and different checklist codes.\<close>

definition exJoined :: "JoinedRecord list" where
  "exJoined =
     [\<lparr>alpha4Code_j = ''AMCR'', ebird6Code = ''amecro'',
       scientificName_j = ''Corvus brachyrhynchos'',
       commonNameEBird = ''American Crow'', commonNameIBP = ''American Crow''\<rparr>,
      \<lparr>alpha4Code_j = ''MALL'', ebird6Code = ''mallar3'',
       scientificName_j = ''Anas platyrhynchos'',
       commonNameEBird = ''Mallard'', commonNameIBP = ''Mallard''\<rparr>]"

text \<open>Two joined pairs with different keys and the same checklist code.\<close>

definition exJoinedSameCode :: "JoinedRecord list" where
  "exJoinedSameCode =
     [\<lparr>alpha4Code_j = ''AMCR'', ebird6Code = ''amecro'',
       scientificName_j = ''Corvus brachyrhynchos'',
       commonNameEBird = ''American Crow'', commonNameIBP = ''American Crow''\<rparr>,
      \<lparr>alpha4Code_j = ''MALL'', ebird6Code = ''amecro'',
       scientificName_j = ''Anas platyrhynchos'',
       commonNameEBird = ''Mallard'', commonNameIBP = ''Mallard''\<rparr>]"

text \<open>
  The fourth line of the checklist file of the repository's parser test, a hybrid, as the
  row object that \<^verbatim>\<open>csvParse\<close> makes of it.
\<close>

definition exHybridRow :: csv_row where
  "exHybridRow =
     map_of [(''TAXON_ORDER'', ''4''), (''CATEGORY'', ''hybrid''), (''SPECIES_CODE'', ''croxfi''),
             (''TAXON_CONCEPT_ID'', ''''),
             (''PRIMARY_COM_NAME'', ''American Crow x Fish Crow (hybrid)''),
             (''SCI_NAME'', ''Corvus brachyrhynchos x ossifragus''),
             (''ORDER'', ''Passeriformes''), (''FAMILY'', ''Corvidae (Crows and Jays)''),
             (''SPECIES_GROUP'', ''Corvids''), (''REPORT_AS'', '''')]"

text \<open>A checklist row with a slash name.\<close>

definition exSlashRow :: csv_row where
  "exSlashRow =
     map_of [(''TAXON_ORDER'', ''5''), (''CATEGORY'', ''slash''), (''SPECIES_CODE'', ''y00478''),
             (''TAXON_CONCEPT_ID'', ''''),
             (''PRIMARY_COM_NAME'', ''American/Fish Crow''),
             (''SCI_NAME'', ''Corvus brachyrhynchos/ossifragus''),
             (''ORDER'', ''Passeriformes''), (''FAMILY'', ''Corvidae (Crows and Jays)''),
             (''SPECIES_GROUP'', ''Corvids''), (''REPORT_AS'', '''')]"

text \<open>The third line of the banding file of the same test, a trinomial.\<close>

definition exTrinomialRow :: csv_row where
  "exTrinomialRow =
     map_of [(''SP'', ''+''), (''B4'', ''''), (''SPEC'', ''LSGW''), (''CONF'', ''''), (''B1'', ''''),
             (''COMMONNAME'', ''Lesser Snow Goose White-morph''), (''B2'', ''''),
             (''SCINAME'', ''Anser caerulescens caerulescens''), (''SPEC6'', ''ANSCCA''),
             (''CONF6'', '''')]"

text \<open>The data row of the test's checklist file with three columns only.\<close>

definition exThreeColumnRow :: csv_row where
  "exThreeColumnRow =
     map_of [(''TAXON_ORDER'', ''invalid''), (''CATEGORY'', ''data''), (''SPECIES_CODE'', ''row'')]"

text \<open>Two rows of a banding file whose header has no scientific-name column, and one
  row of a banding file whose header has no common-name column.\<close>

definition exIBPRowNoSciNameA :: csv_row where
  "exIBPRowNoSciNameA =
     map_of [(''SP'', ''''), (''SPEC'', ''AMCR''), (''COMMONNAME'', ''American Crow''),
             (''SPEC6'', ''CORBRA'')]"

definition exIBPRowNoSciNameB :: csv_row where
  "exIBPRowNoSciNameB =
     map_of [(''SP'', ''''), (''SPEC'', ''MALL''), (''COMMONNAME'', ''Mallard''),
             (''SPEC6'', ''ANAPLA'')]"

definition exIBPRowNoCommonName :: csv_row where
  "exIBPRowNoCommonName =
     map_of [(''SP'', ''''), (''SPEC'', ''AMCR''), (''SCINAME'', ''Corvus brachyrhynchos''),
             (''SPEC6'', ''CORBRA'')]"

text \<open>A banding row and a checklist row in which both the code and the name are
  malformed.\<close>

definition exIBPRowBothBad :: csv_row where
  "exIBPRowBothBad =
     map_of [(''SP'', ''''), (''B4'', ''''), (''SPEC'', ''AM1R''), (''CONF'', ''''), (''B1'', ''''),
             (''COMMONNAME'', ''Invalid Code''), (''B2'', ''''),
             (''SCINAME'', ''corvus brachyrhynchos''), (''SPEC6'', ''CORAME''), (''CONF6'', '''')]"

definition exEBirdRowBothBad :: csv_row where
  "exEBirdRowBothBad =
     map_of [(''TAXON_ORDER'', ''2''), (''CATEGORY'', ''species''), (''SPECIES_CODE'', ''AM''),
             (''TAXON_CONCEPT_ID'', ''''), (''PRIMARY_COM_NAME'', ''American Crow''),
             (''SCI_NAME'', ''corvus brachyrhynchos''),
             (''ORDER'', ''Passeriformes''), (''FAMILY'', ''Corvidae''),
             (''SPECIES_GROUP'', ''Corvids''), (''REPORT_AS'', '''')]"

text \<open>A checklist row with a well-formed name and a malformed code.\<close>

definition exEBirdRowBadCode :: csv_row where
  "exEBirdRowBadCode =
     map_of [(''TAXON_ORDER'', ''2''), (''CATEGORY'', ''species''), (''SPECIES_CODE'', ''AM''),
             (''TAXON_CONCEPT_ID'', ''''), (''PRIMARY_COM_NAME'', ''American Crow''),
             (''SCI_NAME'', ''Corvus brachyrhynchos''),
             (''ORDER'', ''Passeriformes''), (''FAMILY'', ''Corvidae''),
             (''SPECIES_GROUP'', ''Corvids''), (''REPORT_AS'', '''')]"

text \<open>A \<^verbatim>\<open>csvParse\<close> that returns the given row objects for the text it is given.\<close>

definition parsedAs :: "csv_row list \<Rightarrow> string \<Rightarrow> csv_outcome" where
  "parsedAs rows text = CsvRows rows"

definition noEBirdOptions :: EBirdParseOptions where
  "noEBirdOptions = \<lparr>filterSpeciesOnly = None\<rparr>"

definition noIBPOptions :: IBPParseOptions where
  "noIBPOptions = \<lparr>excludeSubspecies = None\<rparr>"

text \<open>The lookup that one pass of \<^verbatim>\<open>Map.prototype.set\<close> over a list of records leaves
  for a name: the last record of the list with that name.\<close>

definition lastWithName :: "('r \<Rightarrow> string) \<Rightarrow> string \<Rightarrow> 'r list \<Rightarrow> 'r option" where
  "lastWithName nameOf n rs = find (\<lambda>r. nameOf r = n) (rev rs)"

text \<open>A checklist side in which the name of the crow occurs twice, and a banding side.\<close>

definition exCrowFirst :: EBirdRawRecord where
  "exCrowFirst =
     \<lparr>category = ''species'', speciesCode = ''amecro'',
      scientificName = ''Corvus brachyrhynchos'', commonName = ''American Crow''\<rparr>"

definition exMallard :: EBirdRawRecord where
  "exMallard =
     \<lparr>category = ''species'', speciesCode = ''mallar3'',
      scientificName = ''Anas platyrhynchos'', commonName = ''Mallard''\<rparr>"

definition exCrowLater :: EBirdRawRecord where
  "exCrowLater =
     \<lparr>category = ''species'', speciesCode = ''amecro'',
      scientificName = ''Corvus brachyrhynchos'', commonName = ''American Crow (variant)''\<rparr>"

definition exAMCR :: IBPRawRecord where
  "exAMCR =
     \<lparr>alpha4Code = ''AMCR'', scientificName_ibp = ''Corvus brachyrhynchos'',
      commonName_ibp = ''American Crow'', spec6Code = ''CORBRA''\<rparr>"

definition exMALL :: IBPRawRecord where
  "exMALL =
     \<lparr>alpha4Code = ''MALL'', scientificName_ibp = ''Anas platyrhynchos'',
      commonName_ibp = ''Mallard'', spec6Code = ''ANAPLA''\<rparr>"

definition strictOptions :: JoinOptions where
  "strictOptions =
     \<lparr>strictMode = Some True, allowPartialMatches = None, validateCommonNames = None,
      variantPolicy = None\<rparr>"

definition noJoinOptions :: JoinOptions where
  "noJoinOptions =
     \<lparr>strictMode = None, allowPartialMatches = None, validateCommonNames = None,
      variantPolicy = None\<rparr>"

text \<open>What one name adds to the matched list of the exact join when the join does not
  run in strict mode.\<close>

definition joinedFor ::
  "(string \<times> EBirdRawRecord) list \<Rightarrow> (string \<times> IBPRawRecord) list \<Rightarrow> string \<Rightarrow> JoinedRecord list" where
  "joinedFor em im n =
     (case mapGet em n of
        None \<Rightarrow> []
      | Some e \<Rightarrow> (case mapGet im n of None \<Rightarrow> [] | Some i \<Rightarrow> [makeJoined e i]))"

subsection \<open>The variant-aware join in the words of its description\<close>

text \<open>
  What happens to one checklist record: the variant policy leaves it out, or no banding
  record is found for it, or a banding record is chosen.
\<close>

datatype outcome = Skipped | Unmatched | Chosen ref

text \<open>
  The steps of the description, on the plain list of banding records and with no index:
  for each checklist record in the order given, (1) the first banding record with the
  same full name that is not consumed; (2) if there is none, the first banding record
  with the same two-token binomial that is not consumed; (3) the chosen record becomes
  consumed; (4) if neither step finds one, the checklist record is unmatched. Records that
  the variant policy excludes are left out before step (1).
\<close>

fun specOutcomes ::
  "VariantPolicy \<Rightarrow> (ref \<Rightarrow> IBPRawRecord) \<Rightarrow> ref list \<Rightarrow> ref list \<Rightarrow> EBirdRawRecord list \<Rightarrow>
   outcome list" where
  "specOutcomes pol heap ibp consumed [] = []"
| "specOutcomes pol heap ibp consumed (e # es) =
     (if policySkips pol e then Skipped # specOutcomes pol heap ibp consumed es
      else
        case find (\<lambda>b. scientificName_ibp (heap b) = scientificName e \<and> b \<notin> set consumed) ibp of
          Some b \<Rightarrow> Chosen b # specOutcomes pol heap ibp (consumed @ [b]) es
        | None \<Rightarrow>
            (case find (\<lambda>b. toBinomial (scientificName_ibp (heap b)) =
                              toBinomial (scientificName e) \<and> b \<notin> set consumed) ibp of
               Some b \<Rightarrow> Chosen b # specOutcomes pol heap ibp (consumed @ [b]) es
             | None \<Rightarrow> Unmatched # specOutcomes pol heap ibp consumed es))"

text \<open>The banding records chosen, the joined records and the unmatched checklist
  records that a list of outcomes stands for.\<close>

fun chosenRefs :: "outcome list \<Rightarrow> ref list" where
  "chosenRefs [] = []"
| "chosenRefs (Chosen b # os) = b # chosenRefs os"
| "chosenRefs (_ # os) = chosenRefs os"

fun matchedOf :: "(ref \<Rightarrow> IBPRawRecord) \<Rightarrow> EBirdRawRecord list \<Rightarrow> outcome list \<Rightarrow> JoinedRecord list" where
  "matchedOf heap (e # es) (Chosen b # os) = makeJoined e (heap b) # matchedOf heap es os"
| "matchedOf heap (e # es) (_ # os) = matchedOf heap es os"
| "matchedOf heap _ _ = []"

fun unmatchedOf :: "EBirdRawRecord list \<Rightarrow> outcome list \<Rightarrow> EBirdRawRecord list" where
  "unmatchedOf (e # es) (Unmatched # os) = e # unmatchedOf es os"
| "unmatchedOf (e # es) (_ # os) = unmatchedOf es os"
| "unmatchedOf _ _ = []"

text \<open>The outcomes of a whole join: the checklist records in processing order, the
  banding records as given, nothing consumed at the start.\<close>

definition variantOutcomes ::
  "(ref \<Rightarrow> IBPRawRecord) \<Rightarrow> EBirdRawRecord list \<Rightarrow> ref list \<Rightarrow> JoinOptions \<Rightarrow> outcome list" where
  "variantOutcomes heap ebirdRecords ibpRecords options =
     specOutcomes (optVariantPolicy (resolveOptions options)) heap ibpRecords []
       (ebirdSorted ebirdRecords)"

text \<open>A checklist record is attempted under the options: the variant policy does not
  make the loop skip it.\<close>

definition admitted :: "JoinOptions \<Rightarrow> EBirdRawRecord \<Rightarrow> bool" where
  "admitted options e = (\<not> policySkips (optVariantPolicy (resolveOptions options)) e)"

text \<open>
  A store of three banding record objects: two with the name of the snow goose (the white
  and the blue morph) and the Iceland gull; a species record and a subspecies record of
  the snow goose, and the subspecies record of the gull from the description's scenario.
\<close>

definition exSNGO :: IBPRawRecord where
  "exSNGO =
     \<lparr>alpha4Code = ''SNGO'', scientificName_ibp = ''Anser caerulescens'',
      commonName_ibp = ''Snow Goose'', spec6Code = ''ANSCAE''\<rparr>"

definition exBLGO :: IBPRawRecord where
  "exBLGO =
     \<lparr>alpha4Code = ''BLGO'', scientificName_ibp = ''Anser caerulescens'',
      commonName_ibp = ''Blue Goose'', spec6Code = ''ANSCAE''\<rparr>"

definition exICGU :: IBPRawRecord where
  "exICGU =
     \<lparr>alpha4Code = ''ICGU'', scientificName_ibp = ''Larus glaucoides'',
      commonName_ibp = ''Iceland Gull'', spec6Code = ''LARGLA''\<rparr>"

definition exHeap :: "ref \<Rightarrow> IBPRawRecord" where
  "exHeap r = (if r = 0 then exSNGO else if r = 1 then exBLGO else exICGU)"

definition exSnowGoose :: EBirdRawRecord where
  "exSnowGoose =
     \<lparr>category = ''species'', speciesCode = ''snogoo'',
      scientificName = ''Anser caerulescens'', commonName = ''Snow Goose''\<rparr>"

definition exLesserSnowGoose :: EBirdRawRecord where
  "exLesserSnowGoose =
     \<lparr>category = ''issf'', speciesCode = ''snogoo1'',
      scientificName = ''Anser caerulescens caerulescens'', commonName = ''Snow Goose (Lesser)''\<rparr>"

definition exKumlien :: EBirdRawRecord where
  "exKumlien =
     \<lparr>category = ''issf'', speciesCode = ''icegul1'',
      scientificName = ''Larus glaucoides kumlieni'', commonName = ''Iceland Gull (kumlieni)''\<rparr>"

definition speciesOnlyOptions :: JoinOptions where
  "speciesOnlyOptions =
     \<lparr>strictMode = None, allowPartialMatches = None, validateCommonNames = None,
      variantPolicy = Some PolicySpecies\<rparr>"

chapter \<open>Properties\<close>

section \<open>The normalizer\<close>

lemma map_of_mapSet: "map_of (mapSet k v m) k' = (if k' = k then Some v else map_of m k')"
  by (induction m) auto

lemma mapGet_mapFromEntries_aux:
  "map_of (foldl (\<lambda>m e. mapSet (fst e) (snd e) m) m0 es) k = Some v \<Longrightarrow>
   (k, v) \<in> set es \<or> map_of m0 k = Some v"
  by (induction es arbitrary: m0) (fastforce simp: map_of_mapSet split: if_splits)+

lemma mapGet_mapFromEntries_mem:
  "mapGet (mapFromEntries es) k = Some v \<Longrightarrow> (k, v) \<in> set es"
  using mapGet_mapFromEntries_aux[of "[]" es k v] by (simp add: mapGet_def mapFromEntries_def)

lemma lookupOrSelf_once:
  "lookupOrSelf (mapFromEntries es) n = n \<or> (n, lookupOrSelf (mapFromEntries es) n) \<in> set es"
  by (auto simp: lookupOrSelf_def dest: mapGet_mapFromEntries_mem split: option.splits)

text \<open>A table with a chain is not walked: the first link is applied and no more.\<close>

lemma lookupOrSelf_chain:
  "lookupOrSelf (mapFromEntries [(''Aa bb'', ''Cc dd''), (''Cc dd'', ''Ee ff'')]) ''Aa bb'' = ''Cc dd''"
  by (simp add: lookupOrSelf_def mapGet_def mapFromEntries_def)

lemma isWhiteSpace_space: "isWhiteSpace (CHR '' '')"
  by (simp add: isWhiteSpace_def)

lemma dropWhile_noLeadWs: "noLeadWs s \<Longrightarrow> dropWhile isWhiteSpace s = s"
  by (cases s) (auto simp: noLeadWs_def)

lemma noLeadWs_dropWhile: "noLeadWs (dropWhile isWhiteSpace s)"
  by (induction s) (auto simp: noLeadWs_def)

lemma noLeadWs_replace: "noLeadWs s \<Longrightarrow> noLeadWs (replaceWhiteSpaceRuns s)"
  by (cases s) (auto simp: noLeadWs_def)

lemma replaceWhiteSpaceRuns_idem:
  "replaceWhiteSpaceRuns (replaceWhiteSpaceRuns s) = replaceWhiteSpaceRuns s"
proof (induction s rule: replaceWhiteSpaceRuns.induct)
  case 1
  show ?case by simp
next
  case (2 c cs)
  show ?case
  proof (cases "isWhiteSpace c")
    case True
    let ?X = "replaceWhiteSpaceRuns (dropWhile isWhiteSpace cs)"
    have "noLeadWs ?X" by (rule noLeadWs_replace [OF noLeadWs_dropWhile])
    then have "dropWhile isWhiteSpace ?X = ?X" by (rule dropWhile_noLeadWs)
    with True 2 show ?thesis by (simp add: isWhiteSpace_space)
  next
    case False
    with 2 show ?thesis by simp
  qed
qed

lemma replaceWhiteSpaceRuns_Nil: "replaceWhiteSpaceRuns s = [] \<longleftrightarrow> s = []"
  by (cases s) auto

lemma last_dropWhile_keep:
  "s \<noteq> [] \<Longrightarrow> \<not> P (last s) \<Longrightarrow> dropWhile P s \<noteq> [] \<and> last (dropWhile P s) = last s"
  by (induction s) (auto split: if_splits)

lemma noTrailWs_replace: "noTrailWs s \<Longrightarrow> noTrailWs (replaceWhiteSpaceRuns s)"
proof (induction s rule: replaceWhiteSpaceRuns.induct)
  case 1
  show ?case by (simp add: noTrailWs_def)
next
  case (2 c cs)
  show ?case
  proof (cases "isWhiteSpace c")
    case True
    let ?d = "dropWhile isWhiteSpace cs"
    from 2(3) True have cs: "cs \<noteq> []" "\<not> isWhiteSpace (last cs)"
      by (auto simp: noTrailWs_def split: if_splits)
    then have d: "?d \<noteq> []" "last ?d = last cs"
      using last_dropWhile_keep[of cs isWhiteSpace] by simp_all
    with cs have "noTrailWs ?d" by (simp add: noTrailWs_def)
    with 2(1) True have "noTrailWs (replaceWhiteSpaceRuns ?d)" by simp
    moreover have ne: "replaceWhiteSpaceRuns ?d \<noteq> []"
      using d(1) replaceWhiteSpaceRuns_Nil[of ?d] by blast
    ultimately have "\<not> isWhiteSpace (last (replaceWhiteSpaceRuns ?d))"
      unfolding noTrailWs_def by blast
    moreover have "replaceWhiteSpaceRuns (c # cs) = CHR '' '' # replaceWhiteSpaceRuns ?d"
      using True by simp
    ultimately show ?thesis using ne unfolding noTrailWs_def by simp
  next
    case False
    with 2 show ?thesis
      by (auto simp: noTrailWs_def replaceWhiteSpaceRuns_Nil split: if_splits)
  qed
qed

lemma trim_id: "noLeadWs s \<Longrightarrow> noTrailWs s \<Longrightarrow> trim s = s"
proof -
  assume a: "noLeadWs s" "noTrailWs s"
  then have "noLeadWs (rev s)"
    by (cases "s = []") (auto simp: noLeadWs_def noTrailWs_def hd_rev)
  then show ?thesis using a by (simp add: trim_def dropWhile_noLeadWs)
qed

lemma noTrailWs_trim: "noTrailWs (trim s)"
proof -
  have "noLeadWs (dropWhile isWhiteSpace (rev (dropWhile isWhiteSpace s)))"
    by (rule noLeadWs_dropWhile)
  then show ?thesis
    by (auto simp: trim_def noLeadWs_def noTrailWs_def last_rev)
qed

lemma noLeadWs_rev_dropWhile_rev:
  assumes "noLeadWs d"
  shows "noLeadWs (rev (dropWhile P (rev d)))"
proof (cases "dropWhile P (rev d) = []")
  case True
  then show ?thesis by (simp add: noLeadWs_def)
next
  case False
  have "rev d = takeWhile P (rev d) @ dropWhile P (rev d)" by simp
  then have "d = rev (dropWhile P (rev d)) @ rev (takeWhile P (rev d))"
    by (metis rev_append rev_rev_ident)
  then have "hd d = hd (rev (dropWhile P (rev d)))"
    using False by (metis hd_append2 rev_is_Nil_conv)
  with assms False show ?thesis by (auto simp: noLeadWs_def)
qed

lemma noLeadWs_trim: "noLeadWs (trim s)"
  unfolding trim_def by (rule noLeadWs_rev_dropWhile_rev [OF noLeadWs_dropWhile])

text \<open>Cleaning a cleaned name changes nothing.\<close>

lemma cleaned_fixed:
  "replaceWhiteSpaceRuns (trim (replaceWhiteSpaceRuns (trim s))) = replaceWhiteSpaceRuns (trim s)"
  by (simp add: replaceWhiteSpaceRuns_idem trim_id noLeadWs_replace noTrailWs_replace
      noLeadWs_trim noTrailWs_trim)

lemma GENUS_ADJUSTMENT_MAP_entries:
  "GENUS_ADJUSTMENT_MAP =
     [(''Astur cooperii'', ''Accipiter cooperii''), (''Astur bicolor'', ''Accipiter bicolor''),
      (''Astur chilensis'', ''Accipiter chilensis''), (''Astur gundlachi'', ''Accipiter gundlachi''),
      (''Astur gentilis'', ''Accipiter gentilis'')]"
  by (simp add: GENUS_ADJUSTMENT_MAP_def mapFromEntries_def ACTIVE_GENUS_ADJUSTMENTS_def
      GENUS_ADJUSTMENTS_V1_def GENUS_ADJUSTMENT_RULES_V1_def)

lemma applyGenusAdjustments_cases:
  "applyGenusAdjustments n = n \<or>
   applyGenusAdjustments n \<in>
     {''Accipiter cooperii'', ''Accipiter bicolor'', ''Accipiter chilensis'',
      ''Accipiter gundlachi'', ''Accipiter gentilis''}"
  by (simp add: applyGenusAdjustments_def lookupOrSelf_def mapGet_def GENUS_ADJUSTMENT_MAP_entries)

lemma targets_clean:
  "replaceWhiteSpaceRuns (trim ''Accipiter cooperii'') = ''Accipiter cooperii''"
  "replaceWhiteSpaceRuns (trim ''Accipiter bicolor'') = ''Accipiter bicolor''"
  "replaceWhiteSpaceRuns (trim ''Accipiter chilensis'') = ''Accipiter chilensis''"
  "replaceWhiteSpaceRuns (trim ''Accipiter gundlachi'') = ''Accipiter gundlachi''"
  "replaceWhiteSpaceRuns (trim ''Accipiter gentilis'') = ''Accipiter gentilis''"
  by (simp_all add: trim_def isWhiteSpace_def)

lemma targets_unadjusted:
  "applyGenusAdjustments ''Accipiter cooperii'' = ''Accipiter cooperii''"
  "applyGenusAdjustments ''Accipiter bicolor'' = ''Accipiter bicolor''"
  "applyGenusAdjustments ''Accipiter chilensis'' = ''Accipiter chilensis''"
  "applyGenusAdjustments ''Accipiter gundlachi'' = ''Accipiter gundlachi''"
  "applyGenusAdjustments ''Accipiter gentilis'' = ''Accipiter gentilis''"
  by (simp_all add: applyGenusAdjustments_def lookupOrSelf_def mapGet_def
      GENUS_ADJUSTMENT_MAP_entries)

lemma targets_fixed:
  "t \<in> {''Accipiter cooperii'', ''Accipiter bicolor'', ''Accipiter chilensis'',
        ''Accipiter gundlachi'', ''Accipiter gentilis''} \<Longrightarrow>
   replaceWhiteSpaceRuns (trim t) = t \<and> applyGenusAdjustments t = t"
  using targets_clean targets_unadjusted by blast

lemma applyGenusAdjustments_idem:
  "applyGenusAdjustments (applyGenusAdjustments n) = applyGenusAdjustments n"
  using applyGenusAdjustments_cases[of n] targets_fixed[of "applyGenusAdjustments n"] by auto

text \<open>
  Claim C5. The normalizer is idempotent on every string: normalizing a normalized name
  gives the same name. One call applies at most one substitution: for every table of
  rules, the result of the lookup is the name itself or the replacement that one rule of
  the table gives for exactly this name, so a chain of rules is not followed.
\<close>

theorem normalizeScientificName_idempotent:
  "normalizeScientificName (normalizeScientificName n) = normalizeScientificName n \<and>
   (applyGenusAdjustments n = n \<or>
    (n, applyGenusAdjustments n) \<in>
      set (map (\<lambda>r. (rule_from r, rule_to r)) (rules ACTIVE_GENUS_ADJUSTMENTS))) \<and>
   (lookupOrSelf (mapFromEntries es) n = n \<or>
    (n, lookupOrSelf (mapFromEntries es) n) \<in> set es)"
proof -
  let ?c = "replaceWhiteSpaceRuns (trim n)"
  have "replaceWhiteSpaceRuns (trim (applyGenusAdjustments ?c)) = applyGenusAdjustments ?c"
    using applyGenusAdjustments_cases[of ?c] targets_fixed[of "applyGenusAdjustments ?c"]
      cleaned_fixed[of n] by auto
  then have "normalizeScientificName (normalizeScientificName n) = normalizeScientificName n"
    by (simp add: normalizeScientificName_def applyGenusAdjustments_idem)
  moreover have "applyGenusAdjustments n = n \<or>
    (n, applyGenusAdjustments n) \<in>
      set (map (\<lambda>r. (rule_from r, rule_to r)) (rules ACTIVE_GENUS_ADJUSTMENTS))"
    unfolding applyGenusAdjustments_def GENUS_ADJUSTMENT_MAP_def by (rule lookupOrSelf_once)
  ultimately show ?thesis using lookupOrSelf_once by blast
qed

section \<open>The transformer\<close>

lemma transformStep_cases:
  "(mappingAcc (transformStep d opts acc j) = mappingAcc acc \<and>
      set (seenAlpha4Codes acc) \<subseteq> set (seenAlpha4Codes (transformStep d opts acc j))) \<or>
   (\<exists>m. mappingAcc (transformStep d opts acc j) = mappingAcc acc @ [m] \<and>
        ebird6 m = ebird6Code j \<and> alpha4 m = alpha4Code_j j \<and>
        alpha4Code_j j \<notin> set (seenAlpha4Codes acc) \<and>
        set (seenAlpha4Codes (transformStep d opts acc j)) =
          insert (alpha4Code_j j) (set (seenAlpha4Codes acc)))"
  by (auto simp: transformStep_def Let_def setHas_def setAdd_def)

lemma alpha4Inv_step:
  assumes "alpha4Inv acc"
  shows "alpha4Inv (transformStep d opts acc j)"
proof -
  let ?acc' = "transformStep d opts acc j"
  from assms have d: "distinct (map alpha4 (mappingAcc acc))"
    and s: "alpha4 ` set (mappingAcc acc) \<subseteq> set (seenAlpha4Codes acc)"
    by (simp_all add: alpha4Inv_def)
  from transformStep_cases[of d opts acc j] show ?thesis
  proof (elim disjE exE conjE)
    assume "mappingAcc ?acc' = mappingAcc acc"
      and "set (seenAlpha4Codes acc) \<subseteq> set (seenAlpha4Codes ?acc')"
    with d s show ?thesis unfolding alpha4Inv_def by (simp; blast)
  next
    fix m
    assume m: "mappingAcc ?acc' = mappingAcc acc @ [m]" "alpha4 m = alpha4Code_j j"
      and n: "alpha4Code_j j \<notin> set (seenAlpha4Codes acc)"
      and s': "set (seenAlpha4Codes ?acc') = insert (alpha4Code_j j) (set (seenAlpha4Codes acc))"
    from s n have "alpha4Code_j j \<notin> alpha4 ` set (mappingAcc acc)" by blast
    with d s m s' show ?thesis unfolding alpha4Inv_def by (simp; blast)
  qed
qed

lemma alpha4Inv_foldl: "alpha4Inv acc \<Longrightarrow> alpha4Inv (foldl (transformStep d opts) acc js)"
  by (induction js arbitrary: acc) (simp_all add: alpha4Inv_step)

text \<open>The emitted checklist codes are taken, in order, from the codes of the input.\<close>

lemma ebird6_foldl:
  "distinct (map ebird6 (mappingAcc acc) @ map ebird6Code js) \<Longrightarrow>
   distinct (map ebird6 (mappingAcc (foldl (transformStep d opts) acc js)))"
proof (induction js arbitrary: acc)
  case Nil
  then show ?case by simp
next
  case (Cons j js)
  have "distinct (map ebird6 (mappingAcc (transformStep d opts acc j)) @ map ebird6Code js)"
  proof -
    from transformStep_cases[of d opts acc j]
    consider "mappingAcc (transformStep d opts acc j) = mappingAcc acc"
      | m where "mappingAcc (transformStep d opts acc j) = mappingAcc acc @ [m]"
          "ebird6 m = ebird6Code j"
      by blast
    then show ?thesis
    proof cases
      case 1
      with Cons.prems show ?thesis by simp
    next
      case 2
      with Cons.prems show ?thesis by (simp; blast)
    qed
  qed
  then show ?case using Cons.IH by simp
qed

lemma mappingRecords_cases:
  "mappingRecords (transformToMappingRecords d now js opts) = [] \<or>
   mappingRecords (transformToMappingRecords d now js opts) =
     mappingAcc (foldl (transformStep d opts) emptyTransformAcc js)"
  by (simp add: transformToMappingRecords_def Let_def)

lemma example_names_valid:
  "isValidAlpha4Code ''AMCR''" "isValidAlpha4Code ''MALL''"
  "isValidEBirdCode ''amecro''" "isValidEBirdCode ''mallar3''"
  "isValidScientificName ''Corvus brachyrhynchos''" "isValidScientificName ''Anas platyrhynchos''"
  by (simp_all add: isValidAlpha4Code_def isValidEBirdCode_def isValidScientificName_def
      isUpperAZ_def isLowerAZ_def isDigit09_def)

lemma example_metadata_trimmed:
  "trim ''etl-build'' = ''etl-build''" "trim ''2024.09'' = ''2024.09''"
  by (simp_all add: trim_def isWhiteSpace_def)

lemma transform_exJoined:
  "mappingRecords (transformToMappingRecords exDateIsNaN ''2024-09-08T00:00:01.000Z''
     exJoined exOptions) =
   [\<lparr>alpha4 = ''AMCR'', ebird6 = ''amecro'', common_name = ''American Crow'',
     scientific_name = ''Corvus brachyrhynchos'', source = ''etl-build'',
     source_version = ''2024.09'', updated_at = ''2024-09-08T00:00:00.000Z''\<rparr>,
    \<lparr>alpha4 = ''MALL'', ebird6 = ''mallar3'', common_name = ''Mallard'',
     scientific_name = ''Anas platyrhynchos'', source = ''etl-build'',
     source_version = ''2024.09'', updated_at = ''2024-09-08T00:00:00.000Z''\<rparr>]"
  by (simp add: transformToMappingRecords_def exJoined_def exOptions_def exDateIsNaN_def Let_def
      example_metadata_trimmed emptyTransformAcc_def transformStep_def setHas_def setAdd_def
      validateMappingSchema_def requiredFields_def mappingField_def example_names_valid)

text \<open>
  Claim C1, as the code has it. In every mapping set that
  \<^verbatim>\<open>transformToMappingRecords\<close> emits the \<open>alpha4\<close> values are pairwise distinct. The
  transformer has no duplicate guard for the checklist code: the \<open>ebird6\<close> values of the
  emitted records are pairwise distinct whenever the \<open>ebird6Code\<close> values of the joined
  records it is given are.
\<close>

theorem transform_alpha4_distinct:
  "distinct (map alpha4 (mappingRecords (transformToMappingRecords d now js opts))) \<and>
   (distinct (map ebird6Code js) \<longrightarrow>
    distinct (map ebird6 (mappingRecords (transformToMappingRecords d now js opts))))"
proof -
  have "alpha4Inv emptyTransformAcc" by (simp add: alpha4Inv_def emptyTransformAcc_def)
  then have a: "distinct (map alpha4 (mappingAcc (foldl (transformStep d opts) emptyTransformAcc js)))"
    using alpha4Inv_foldl[of emptyTransformAcc d opts js] by (simp add: alpha4Inv_def)
  have b: "distinct (map ebird6Code js) \<Longrightarrow>
     distinct (map ebird6 (mappingAcc (foldl (transformStep d opts) emptyTransformAcc js)))"
    using ebird6_foldl[of emptyTransformAcc js d opts] by (simp add: emptyTransformAcc_def)
  show ?thesis using mappingRecords_cases[of d now js opts] a b by auto
qed

text \<open>The theorem at two joined pairs with different codes: both are emitted.\<close>

theorem transform_alpha4_distinct_witness:
  "distinct (map ebird6Code exJoined) \<and>
   length (mappingRecords (transformToMappingRecords exDateIsNaN ''2024-09-08T00:00:01.000Z''
     exJoined exOptions)) = 2 \<and>
   distinct (map alpha4 (mappingRecords (transformToMappingRecords exDateIsNaN
     ''2024-09-08T00:00:01.000Z'' exJoined exOptions))) \<and>
   distinct (map ebird6 (mappingRecords (transformToMappingRecords exDateIsNaN
     ''2024-09-08T00:00:01.000Z'' exJoined exOptions)))"
proof -
  have h: "distinct (map ebird6Code exJoined)" by (simp add: exJoined_def)
  have l: "length (mappingRecords (transformToMappingRecords exDateIsNaN
     ''2024-09-08T00:00:01.000Z'' exJoined exOptions)) = 2"
    by (simp add: transform_exJoined)
  show ?thesis
    using h l transform_alpha4_distinct[of exDateIsNaN "''2024-09-08T00:00:01.000Z''"
        exJoined exOptions]
    by blast
qed

text \<open>
  The claim as stated fails: two joined pairs with the keys AMCR and MALL and the same
  checklist code \<open>amecro\<close> pass every check, and both are emitted.
\<close>

theorem transform_ebird6_counterexample:
  "map ebird6 (mappingRecords (transformToMappingRecords exDateIsNaN
      ''2024-09-08T00:00:01.000Z'' exJoinedSameCode exOptions)) = [''amecro'', ''amecro''] \<and>
   \<not> distinct (map ebird6 (mappingRecords (transformToMappingRecords exDateIsNaN
      ''2024-09-08T00:00:01.000Z'' exJoinedSameCode exOptions)))"
proof -
  have "map ebird6 (mappingRecords (transformToMappingRecords exDateIsNaN
      ''2024-09-08T00:00:01.000Z'' exJoinedSameCode exOptions)) = [''amecro'', ''amecro'']"
    by (simp add: transformToMappingRecords_def exJoinedSameCode_def exOptions_def
        exDateIsNaN_def Let_def example_metadata_trimmed emptyTransformAcc_def transformStep_def
        setHas_def setAdd_def validateMappingSchema_def requiredFields_def mappingField_def
        example_names_valid)
  then show ?thesis by simp
qed

section \<open>The parsers\<close>

subsection \<open>The row loops\<close>

lemma processEBirdRow_counts:
  "validCount (processEBirdRow f acc ir) + skippedCount (processEBirdRow f acc ir) +
     errorCount (processEBirdRow f acc ir) =
   validCount acc + skippedCount acc + errorCount acc + 1"
  by (simp add: processEBirdRow_def Let_def pushError_def skipRow_def pushRecord_def
      split: sum.splits)

lemma processIBPRow_counts:
  "validCount (processIBPRow x acc ir) + skippedCount (processIBPRow x acc ir) +
     errorCount (processIBPRow x acc ir) =
   validCount acc + skippedCount acc + errorCount acc + 1"
  by (simp add: processIBPRow_def Let_def pushError_def skipRow_def pushRecord_def
      split: sum.splits)

lemma processEBirdRow_errors:
  "errorCount acc = length (errorsAcc acc) \<Longrightarrow>
   errorCount (processEBirdRow f acc ir) = length (errorsAcc (processEBirdRow f acc ir))"
  by (simp add: processEBirdRow_def Let_def pushError_def skipRow_def pushRecord_def
      split: sum.splits)

lemma processIBPRow_errors:
  "errorCount acc = length (errorsAcc acc) \<Longrightarrow>
   errorCount (processIBPRow x acc ir) = length (errorsAcc (processIBPRow x acc ir))"
  by (simp add: processIBPRow_def Let_def pushError_def skipRow_def pushRecord_def
      split: sum.splits)

lemma foldl_counts:
  assumes "\<And>acc ir. validCount (step acc ir) + skippedCount (step acc ir) + errorCount (step acc ir) =
     validCount acc + skippedCount acc + errorCount acc + 1"
  shows "validCount (foldl step acc irs) + skippedCount (foldl step acc irs) +
     errorCount (foldl step acc irs) =
   validCount acc + skippedCount acc + errorCount acc + length irs"
  by (induction irs arbitrary: acc) (simp_all add: assms)

lemma parseIBPCSV_stats_sum:
  "validRecords (stats (parseIBPCSV csvParse c opts)) +
   skippedRecords (stats (parseIBPCSV csvParse c opts)) +
   errorRecords (stats (parseIBPCSV csvParse c opts)) =
   totalRows (stats (parseIBPCSV csvParse c opts))"
  using foldl_counts[of "processIBPRow b" emptyAcc for b, OF processIBPRow_counts]
  by (simp add: parseIBPCSV_def Let_def zeroStats_def resultOfAcc_def emptyAcc_def
      split: csv_outcome.splits)

lemma parseIBPCSV_success_iff:
  "success (parseIBPCSV csvParse c opts) \<longleftrightarrow> errors (parseIBPCSV csvParse c opts) = []"
  by (simp add: parseIBPCSV_def Let_def resultOfAcc_def split: csv_outcome.splits)

lemma parseEBirdCSV_success_iff:
  "success (parseEBirdCSV csvParse c opts) \<longleftrightarrow> errors (parseEBirdCSV csvParse c opts) = []"
  by (simp add: parseEBirdCSV_def Let_def resultOfAcc_def split: csv_outcome.splits)

lemma parseEBirdCSV_stats_sum:
  assumes "\<And>rows. csvParse (stripBOM c) = CsvRows rows \<Longrightarrow> rows \<noteq> [] \<Longrightarrow>
           filter (\<lambda>col. hd rows col = None) expectedColumns = []"
  shows "validRecords (stats (parseEBirdCSV csvParse c opts)) +
   skippedRecords (stats (parseEBirdCSV csvParse c opts)) +
   errorRecords (stats (parseEBirdCSV csvParse c opts)) =
   totalRows (stats (parseEBirdCSV csvParse c opts))"
proof (cases "csvParse (stripBOM c)")
  case (CsvThrows e)
  then show ?thesis by (simp add: parseEBirdCSV_def Let_def zeroStats_def)
next
  case (CsvRows rows)
  show ?thesis
  proof (cases rows)
    case Nil
    with CsvRows show ?thesis by (simp add: parseEBirdCSV_def Let_def zeroStats_def)
  next
    case (Cons r rs)
    with CsvRows assms[of rows] have "filter (\<lambda>col. r col = None) expectedColumns = []" by simp
    with CsvRows Cons show ?thesis
      using foldl_counts[of "processEBirdRow b" emptyAcc "enumerate 0 rows" for b,
          OF processEBirdRow_counts]
      by (simp add: parseEBirdCSV_def Let_def resultOfAcc_def emptyAcc_def)
  qed
qed

lemma parseEBirdCSV_missing_column:
  assumes "csvParse (stripBOM c) = CsvRows (r # rs)" "col \<in> set expectedColumns" "r col = None"
  shows "records (parseEBirdCSV csvParse c opts) = [] \<and>
         map err_type (errors (parseEBirdCSV csvParse c opts)) = [MISSING_COLUMNS]"
proof -
  from assms(2,3) have "filter (\<lambda>c. r c = None) expectedColumns \<noteq> []"
    by (auto simp: filter_empty_conv)
  with assms(1) show ?thesis by (simp add: parseEBirdCSV_def Let_def)
qed

text \<open>Every record that the checklist parser emits has a strictly binomial name.\<close>

lemma processEBirdRow_records:
  "recordsAcc (processEBirdRow f acc ir) = recordsAcc acc \<or>
   (\<exists>rec. recordsAcc (processEBirdRow f acc ir) = recordsAcc acc @ [rec] \<and>
          isValidScientificName (scientificName rec))"
  by (auto simp: processEBirdRow_def Let_def pushError_def skipRow_def pushRecord_def
      createScientificName_def split: sum.splits if_splits)

lemma foldl_processEBirdRow_records:
  "list_all (\<lambda>rec. isValidScientificName (scientificName rec)) (recordsAcc acc) \<Longrightarrow>
   list_all (\<lambda>rec. isValidScientificName (scientificName rec))
     (recordsAcc (foldl (processEBirdRow f) acc irs))"
proof (induction irs arbitrary: acc)
  case Nil
  then show ?case by simp
next
  case (Cons ir irs)
  from processEBirdRow_records[of f acc ir] Cons.prems
  have "list_all (\<lambda>rec. isValidScientificName (scientificName rec))
          (recordsAcc (processEBirdRow f acc ir))"
    by (elim disjE exE conjE) simp_all
  then show ?case using Cons.IH by simp
qed

lemma parseEBirdCSV_records_binomial:
  "list_all (\<lambda>rec. isValidScientificName (scientificName rec))
     (records (parseEBirdCSV csvParse c opts))"
  using foldl_processEBirdRow_records[of emptyAcc]
  by (simp add: parseEBirdCSV_def Let_def resultOfAcc_def emptyAcc_def split: csv_outcome.splits)


subsection \<open>The parsers at concrete rows\<close>

lemma normalize_examples:
  "normalizeScientificName ''Corvus brachyrhynchos x ossifragus'' = ''Corvus brachyrhynchos x ossifragus''"
  "normalizeScientificName ''Corvus brachyrhynchos/ossifragus'' = ''Corvus brachyrhynchos/ossifragus''"
  "normalizeScientificName ''Anser caerulescens caerulescens'' = ''Anser caerulescens caerulescens''"
  "normalizeScientificName ''corvus brachyrhynchos'' = ''corvus brachyrhynchos''"
  "normalizeScientificName ''Corvus brachyrhynchos'' = ''Corvus brachyrhynchos''"
  by (simp_all add: normalizeScientificName_def trim_def isWhiteSpace_def applyGenusAdjustments_def
      lookupOrSelf_def mapGet_def GENUS_ADJUSTMENT_MAP_entries)

lemma name_examples:
  "\<not> isValidScientificName ''Corvus brachyrhynchos x ossifragus''"
  "\<not> isValidScientificName ''Corvus brachyrhynchos/ossifragus''"
  "\<not> isValidScientificName ''Anser caerulescens caerulescens''"
  "\<not> isValidScientificName ''corvus brachyrhynchos''"
  by (simp_all add: isValidScientificName_def isUpperAZ_def isLowerAZ_def)

lemma marker_examples:
  "includesStr ''Corvus brachyrhynchos x ossifragus'' '' x ''"
  "\<not> includesStr ''Corvus brachyrhynchos x ossifragus'' '' sp.''"
  "includesStr ''Corvus brachyrhynchos/ossifragus'' ''/''"
  "\<not> includesStr ''Corvus brachyrhynchos/ossifragus'' '' sp.''"
  "\<not> includesStr ''corvus brachyrhynchos'' '' x ''"
  "\<not> includesStr ''corvus brachyrhynchos'' ''/''"
  "\<not> includesStr ''corvus brachyrhynchos'' '' sp.''"
  "\<not> includesStr ''Corvus brachyrhynchos'' '' sp.''"
  by simp_all

lemma code_examples:
  "isValidEBirdCode ''croxfi''" "isValidEBirdCode ''y00478''" "\<not> isValidEBirdCode ''AM''"
  "isValidAlpha4Code ''LSGW''" "\<not> isValidAlpha4Code ''AM1R''"
  by (simp_all add: isValidEBirdCode_def isValidAlpha4Code_def isLowerAZ_def isDigit09_def
      isUpperAZ_def)

lemma groupLevel_examples:
  "\<not> groupLevelPattern ''Anser caerulescens caerulescens''"
  "\<not> groupLevelPattern ''Corvus brachyrhynchos''"
  by (simp_all add: groupLevelAt_def startsWithCI_def dropOptional_def isWhiteSpace_def)

lemma exHybridRow_fields:
  "fieldOf exHybridRow ''CATEGORY'' = ''hybrid''"
  "fieldOf exHybridRow ''SPECIES_CODE'' = ''croxfi''"
  "fieldOf exHybridRow ''PRIMARY_COM_NAME'' = ''American Crow x Fish Crow (hybrid)''"
  "fieldOf exHybridRow ''SCI_NAME'' = ''Corvus brachyrhynchos x ossifragus''"
  "filter (\<lambda>c. exHybridRow c = None) expectedColumns = []"
  by (simp_all add: fieldOf_def exHybridRow_def trim_def isWhiteSpace_def expectedColumns_def)

lemma exSlashRow_fields:
  "fieldOf exSlashRow ''CATEGORY'' = ''slash''"
  "fieldOf exSlashRow ''SPECIES_CODE'' = ''y00478''"
  "fieldOf exSlashRow ''PRIMARY_COM_NAME'' = ''American/Fish Crow''"
  "fieldOf exSlashRow ''SCI_NAME'' = ''Corvus brachyrhynchos/ossifragus''"
  "filter (\<lambda>c. exSlashRow c = None) expectedColumns = []"
  by (simp_all add: fieldOf_def exSlashRow_def trim_def isWhiteSpace_def expectedColumns_def)

lemma exEBirdRowBothBad_fields:
  "fieldOf exEBirdRowBothBad ''CATEGORY'' = ''species''"
  "fieldOf exEBirdRowBothBad ''SPECIES_CODE'' = ''AM''"
  "fieldOf exEBirdRowBothBad ''PRIMARY_COM_NAME'' = ''American Crow''"
  "fieldOf exEBirdRowBothBad ''SCI_NAME'' = ''corvus brachyrhynchos''"
  by (simp_all add: fieldOf_def exEBirdRowBothBad_def trim_def isWhiteSpace_def)

lemma exEBirdRowBadCode_fields:
  "fieldOf exEBirdRowBadCode ''CATEGORY'' = ''species''"
  "fieldOf exEBirdRowBadCode ''SPECIES_CODE'' = ''AM''"
  "fieldOf exEBirdRowBadCode ''PRIMARY_COM_NAME'' = ''American Crow''"
  "fieldOf exEBirdRowBadCode ''SCI_NAME'' = ''Corvus brachyrhynchos''"
  by (simp_all add: fieldOf_def exEBirdRowBadCode_def trim_def isWhiteSpace_def)

lemma exTrinomialRow_fields:
  "fieldOf exTrinomialRow ''SP'' = ''+''"
  "fieldOf exTrinomialRow ''SPEC'' = ''LSGW''"
  "fieldOf exTrinomialRow ''COMMONNAME'' = ''Lesser Snow Goose White-morph''"
  "fieldOf exTrinomialRow ''SCINAME'' = ''Anser caerulescens caerulescens''"
  "fieldOf exTrinomialRow ''SPEC6'' = ''ANSCCA''"
  by (simp_all add: fieldOf_def exTrinomialRow_def trim_def isWhiteSpace_def)

lemma exIBPRowBothBad_fields:
  "fieldOf exIBPRowBothBad ''SP'' = []"
  "fieldOf exIBPRowBothBad ''SPEC'' = ''AM1R''"
  "fieldOf exIBPRowBothBad ''COMMONNAME'' = ''Invalid Code''"
  "fieldOf exIBPRowBothBad ''SCINAME'' = ''corvus brachyrhynchos''"
  "fieldOf exIBPRowBothBad ''SPEC6'' = ''CORAME''"
  by (simp_all add: fieldOf_def exIBPRowBothBad_def trim_def isWhiteSpace_def)

lemma exIBPRowNoCommonName_fields:
  "fieldOf exIBPRowNoCommonName ''SP'' = []"
  "fieldOf exIBPRowNoCommonName ''SPEC'' = ''AMCR''"
  "fieldOf exIBPRowNoCommonName ''COMMONNAME'' = []"
  "fieldOf exIBPRowNoCommonName ''SCINAME'' = ''Corvus brachyrhynchos''"
  "fieldOf exIBPRowNoCommonName ''SPEC6'' = ''CORBRA''"
  by (simp_all add: fieldOf_def exIBPRowNoCommonName_def trim_def isWhiteSpace_def)

lemma processEBirdRow_exHybridRow:
  "map err_type (errorsAcc (processEBirdRow False emptyAcc (0, exHybridRow))) = [MALFORMED_ROW] \<and>
   recordsAcc (processEBirdRow False emptyAcc (0, exHybridRow)) = []"
  by (simp add: processEBirdRow_def Let_def exHybridRow_fields nameRejectedEBird_def
      normalize_examples name_examples marker_examples code_examples createEBirdCode_def
      createScientificName_def pushError_def emptyAcc_def del: includesStr.simps)

lemma processEBirdRow_exSlashRow:
  "map err_type (errorsAcc (processEBirdRow False emptyAcc (0, exSlashRow))) = [MALFORMED_ROW] \<and>
   recordsAcc (processEBirdRow False emptyAcc (0, exSlashRow)) = []"
  by (simp add: processEBirdRow_def Let_def exSlashRow_fields nameRejectedEBird_def
      normalize_examples name_examples marker_examples code_examples createEBirdCode_def
      createScientificName_def pushError_def emptyAcc_def del: includesStr.simps)

lemma processIBPRow_exTrinomialRow:
  "map err_type (errorsAcc (processIBPRow False emptyAcc (0, exTrinomialRow))) =
     [INVALID_SCIENTIFIC_NAME] \<and>
   recordsAcc (processIBPRow False emptyAcc (0, exTrinomialRow)) = []"
  by (simp add: processIBPRow_def Let_def exTrinomialRow_fields normalize_examples name_examples
      code_examples groupLevel_examples pushError_def emptyAcc_def
      del: groupLevelPattern.simps)

text \<open>
  Claim C2 at the rows of the repository's own parser test. The hybrid row
  \<open>Corvus brachyrhynchos x ossifragus\<close> and a slash row pass the name check of
  \<^verbatim>\<open>parseEBirdCSV\<close> through their marker, and then
  \<^verbatim>\<open>createScientificName\<close> throws on them, because \<^verbatim>\<open>isValidScientificName\<close>
  accepts the binomial form only: the row ends as a \<open>MALFORMED_ROW\<close> error and no
  record. The trinomial row of the banding test file ends as an
  \<open>INVALID_SCIENTIFIC_NAME\<close> error in \<^verbatim>\<open>parseIBPCSV\<close>.
\<close>

theorem parseEBirdCSV_rejects_hybrid_and_slash:
  "records (parseEBirdCSV (parsedAs [exHybridRow]) csvContent noEBirdOptions) = [] \<and>
   map err_type (errors (parseEBirdCSV (parsedAs [exHybridRow]) csvContent noEBirdOptions)) =
     [MALFORMED_ROW] \<and>
   records (parseEBirdCSV (parsedAs [exSlashRow]) csvContent noEBirdOptions) = [] \<and>
   map err_type (errors (parseEBirdCSV (parsedAs [exSlashRow]) csvContent noEBirdOptions)) =
     [MALFORMED_ROW] \<and>
   records (parseIBPCSV (parsedAs [exTrinomialRow]) csvContent noIBPOptions) = [] \<and>
   map err_type (errors (parseIBPCSV (parsedAs [exTrinomialRow]) csvContent noIBPOptions)) =
     [INVALID_SCIENTIFIC_NAME]"
  using processEBirdRow_exHybridRow processEBirdRow_exSlashRow processIBPRow_exTrinomialRow
  by (simp add: parseEBirdCSV_def parseIBPCSV_def parsedAs_def noEBirdOptions_def noIBPOptions_def
      Let_def exHybridRow_fields exSlashRow_fields resultOfAcc_def)


lemma exThreeColumnRow_missing:
  "filter (\<lambda>c. exThreeColumnRow c = None) expectedColumns =
     [''TAXON_CONCEPT_ID'', ''PRIMARY_COM_NAME'', ''SCI_NAME'', ''ORDER'', ''FAMILY'',
      ''SPECIES_GROUP'', ''REPORT_AS'']"
  by (simp add: exThreeColumnRow_def expectedColumns_def)

text \<open>
  Claim C8 at the three-column checklist file of the repository's parser test: the header
  check fails, and the statistics returned count one row in total and no valid, skipped or
  error row, so the three counters do not add up to the total.
\<close>

theorem parseEBirdCSV_missing_columns_stats:
  "stats (parseEBirdCSV (parsedAs [exThreeColumnRow]) csvContent noEBirdOptions) =
     \<lparr>totalRows = 1, validRecords = 0, skippedRecords = 0, errorRecords = 0\<rparr> \<and>
   map err_type (errors (parseEBirdCSV (parsedAs [exThreeColumnRow]) csvContent noEBirdOptions)) =
     [MISSING_COLUMNS]"
  by (simp add: parseEBirdCSV_def parsedAs_def noEBirdOptions_def Let_def
      exThreeColumnRow_missing)

lemma exIBPRowNoSciName_fields:
  "fieldOf exIBPRowNoSciNameA ''SPEC'' = ''AMCR''"
  "fieldOf exIBPRowNoSciNameA ''SCINAME'' = []"
  "fieldOf exIBPRowNoSciNameB ''SPEC'' = ''MALL''"
  "fieldOf exIBPRowNoSciNameB ''SCINAME'' = []"
  by (simp_all add: fieldOf_def exIBPRowNoSciNameA_def exIBPRowNoSciNameB_def trim_def
      isWhiteSpace_def)

lemma processIBPRow_no_name:
  "fieldOf r ''SCINAME'' = [] \<Longrightarrow>
   processIBPRow x acc (idx, r) =
     pushError \<lparr>err_type = EMPTY_REQUIRED_FIELD,
                err_message = ''Missing required SPEC or SCINAME'', err_row = idx + 1,
                err_value = (if fieldOf r ''SPEC'' \<noteq> [] then fieldOf r ''SPEC'' else [])\<rparr> acc"
  by (simp add: processIBPRow_def Let_def)

lemma processIBPRow_exIBPRowNoCommonName:
  "processIBPRow False emptyAcc (0, exIBPRowNoCommonName) =
     pushRecord \<lparr>alpha4Code = ''AMCR'', scientificName_ibp = ''Corvus brachyrhynchos'',
                 commonName_ibp = [], spec6Code = ''CORBRA''\<rparr> emptyAcc"
  by (simp add: processIBPRow_def Let_def exIBPRowNoCommonName_fields normalize_examples
      example_names_valid groupLevel_examples createAlpha4Code_def createScientificName_def
      del: groupLevelPattern.simps)

text \<open>
  Claim C7 at two banding files. \<^verbatim>\<open>parseIBPCSV\<close> has no header check. With no
  scientific-name column every row is processed and gives a row error of its own; with no
  common-name column the parse succeeds with a record whose common name is empty.
\<close>

theorem parseIBPCSV_missing_column_parsed:
  "map err_type (errors (parseIBPCSV (parsedAs [exIBPRowNoSciNameA, exIBPRowNoSciNameB])
      csvContent noIBPOptions)) = [EMPTY_REQUIRED_FIELD, EMPTY_REQUIRED_FIELD] \<and>
   errorRecords (stats (parseIBPCSV (parsedAs [exIBPRowNoSciNameA, exIBPRowNoSciNameB])
      csvContent noIBPOptions)) = 2 \<and>
   success (parseIBPCSV (parsedAs [exIBPRowNoCommonName]) csvContent noIBPOptions) \<and>
   records (parseIBPCSV (parsedAs [exIBPRowNoCommonName]) csvContent noIBPOptions) =
     [\<lparr>alpha4Code = ''AMCR'', scientificName_ibp = ''Corvus brachyrhynchos'',
       commonName_ibp = [], spec6Code = ''CORBRA''\<rparr>]"
  by (simp add: parseIBPCSV_def parsedAs_def noIBPOptions_def Let_def
      processIBPRow_no_name exIBPRowNoSciName_fields pushError_def
      resultOfAcc_def processIBPRow_exIBPRowNoCommonName pushRecord_def)
  (simp add: emptyAcc_def)

lemma processIBPRow_exIBPRowBothBad:
  "map err_type (errorsAcc (processIBPRow False emptyAcc (0, exIBPRowBothBad))) =
     [INVALID_ALPHA4_CODE]"
  by (simp add: processIBPRow_def Let_def exIBPRowBothBad_fields code_examples pushError_def
      emptyAcc_def)

text \<open>
  Claim C9 as stated fails for the banding parser: a row whose code \<open>AM1R\<close> and whose
  name \<open>corvus brachyrhynchos\<close> are both malformed is reported with the error of the
  code, not of the name.
\<close>

theorem parseIBPCSV_code_error_before_name_counterexample:
  "\<not> isValidScientificName (normalizeScientificName (fieldOf exIBPRowBothBad ''SCINAME'')) \<and>
   \<not> isValidAlpha4Code (fieldOf exIBPRowBothBad ''SPEC'') \<and>
   map err_type (errors (parseIBPCSV (parsedAs [exIBPRowBothBad]) [] noIBPOptions)) =
     [INVALID_ALPHA4_CODE]"
  using processIBPRow_exIBPRowBothBad
  by (simp add: parseIBPCSV_def parsedAs_def noIBPOptions_def Let_def resultOfAcc_def
      exIBPRowBothBad_fields normalize_examples name_examples code_examples)

text \<open>
  Claim C9, as the code has it, for one row of each parser (the row has its key and its
  name, and no filter drops it). In \<^verbatim>\<open>parseEBirdCSV\<close> the name is checked first: a
  row whose name is rejected gives \<open>INVALID_SCIENTIFIC_NAME\<close> whatever its code is, and
  \<open>INVALID_EBIRD_CODE\<close> is reported only for a row whose name passed. In
  \<^verbatim>\<open>parseIBPCSV\<close> the code is checked first: a row whose code is malformed gives
  \<open>INVALID_ALPHA4_CODE\<close> whatever its name is, and \<open>INVALID_SCIENTIFIC_NAME\<close> is
  reported only for a row whose code is well-formed.
\<close>

theorem validation_order_per_row:
  "(nameRejectedEBird (fieldOf r ''SCI_NAME'') \<and> fieldOf r ''SPECIES_CODE'' \<noteq> [] \<and>
      fieldOf r ''SCI_NAME'' \<noteq> [] \<and> \<not> (f \<and> fieldOf r ''CATEGORY'' \<noteq> ''species'') \<longrightarrow>
    map err_type (errorsAcc (processEBirdRow f acc (idx, r))) =
      map err_type (errorsAcc acc) @ [INVALID_SCIENTIFIC_NAME]) \<and>
   (map err_type (errorsAcc (processEBirdRow f acc (idx, r))) =
      map err_type (errorsAcc acc) @ [INVALID_EBIRD_CODE] \<longrightarrow>
    \<not> nameRejectedEBird (fieldOf r ''SCI_NAME'') \<and> \<not> isValidEBirdCode (fieldOf r ''SPECIES_CODE'')) \<and>
   (\<not> isValidAlpha4Code (fieldOf q ''SPEC'') \<and> fieldOf q ''SPEC'' \<noteq> [] \<and>
      fieldOf q ''SCINAME'' \<noteq> [] \<and> \<not> (x \<and> fieldOf q ''SP'' = ''+'') \<longrightarrow>
    map err_type (errorsAcc (processIBPRow x acc' (idx', q))) =
      map err_type (errorsAcc acc') @ [INVALID_ALPHA4_CODE]) \<and>
   (map err_type (errorsAcc (processIBPRow x acc' (idx', q))) =
      map err_type (errorsAcc acc') @ [INVALID_SCIENTIFIC_NAME] \<longrightarrow>
    isValidAlpha4Code (fieldOf q ''SPEC'') \<and>
    \<not> isValidScientificName (normalizeScientificName (fieldOf q ''SCINAME'')))"
proof (intro conjI impI)
  assume "nameRejectedEBird (fieldOf r ''SCI_NAME'') \<and> fieldOf r ''SPECIES_CODE'' \<noteq> [] \<and>
      fieldOf r ''SCI_NAME'' \<noteq> [] \<and> \<not> (f \<and> fieldOf r ''CATEGORY'' \<noteq> ''species'')"
  then show "map err_type (errorsAcc (processEBirdRow f acc (idx, r))) =
      map err_type (errorsAcc acc) @ [INVALID_SCIENTIFIC_NAME]"
    by (auto simp: processEBirdRow_def Let_def pushError_def)
next
  assume a: "map err_type (errorsAcc (processEBirdRow f acc (idx, r))) =
      map err_type (errorsAcc acc) @ [INVALID_EBIRD_CODE]"
  then show "\<not> nameRejectedEBird (fieldOf r ''SCI_NAME'')"
    by (auto simp: processEBirdRow_def Let_def pushError_def skipRow_def pushRecord_def
        split: if_splits sum.splits)
  from a show "\<not> isValidEBirdCode (fieldOf r ''SPECIES_CODE'')"
    by (auto simp: processEBirdRow_def Let_def pushError_def skipRow_def pushRecord_def
        split: if_splits sum.splits)
next
  assume "\<not> isValidAlpha4Code (fieldOf q ''SPEC'') \<and> fieldOf q ''SPEC'' \<noteq> [] \<and>
      fieldOf q ''SCINAME'' \<noteq> [] \<and> \<not> (x \<and> fieldOf q ''SP'' = ''+'')"
  then show "map err_type (errorsAcc (processIBPRow x acc' (idx', q))) =
      map err_type (errorsAcc acc') @ [INVALID_ALPHA4_CODE]"
    by (auto simp: processIBPRow_def Let_def pushError_def)
next
  assume a: "map err_type (errorsAcc (processIBPRow x acc' (idx', q))) =
      map err_type (errorsAcc acc') @ [INVALID_SCIENTIFIC_NAME]"
  then show "isValidAlpha4Code (fieldOf q ''SPEC'')"
    by (auto simp: processIBPRow_def Let_def pushError_def skipRow_def pushRecord_def
        split: if_splits sum.splits)
  from a show "\<not> isValidScientificName (normalizeScientificName (fieldOf q ''SCINAME''))"
    by (auto simp: processIBPRow_def Let_def pushError_def skipRow_def pushRecord_def
        split: if_splits sum.splits)
qed

lemma processEBirdRow_exEBirdRowBadCode:
  "map err_type (errorsAcc (processEBirdRow False emptyAcc (0, exEBirdRowBadCode))) =
     [INVALID_EBIRD_CODE]"
  by (simp add: processEBirdRow_def Let_def exEBirdRowBadCode_fields nameRejectedEBird_def
      normalize_examples example_names_valid marker_examples code_examples pushError_def
      emptyAcc_def del: includesStr.simps)

lemma nameRejectedEBird_exEBirdRowBothBad:
  "nameRejectedEBird (fieldOf exEBirdRowBothBad ''SCI_NAME'')"
  by (simp add: exEBirdRowBothBad_fields nameRejectedEBird_def normalize_examples name_examples
      marker_examples del: includesStr.simps)

text \<open>The theorem at four rows: both parts malformed (one row for each parser), a
  checklist row with a malformed code only, and a banding row with a malformed name only.\<close>

theorem validation_order_per_row_witness:
  "map err_type (errorsAcc (processEBirdRow False emptyAcc (0, exEBirdRowBothBad))) =
     [INVALID_SCIENTIFIC_NAME] \<and>
   \<not> isValidEBirdCode (fieldOf exEBirdRowBothBad ''SPECIES_CODE'') \<and>
   map err_type (errorsAcc (processIBPRow False emptyAcc (0, exIBPRowBothBad))) =
     [INVALID_ALPHA4_CODE] \<and>
   \<not> isValidScientificName (normalizeScientificName (fieldOf exIBPRowBothBad ''SCINAME'')) \<and>
   \<not> nameRejectedEBird (fieldOf exEBirdRowBadCode ''SCI_NAME'') \<and>
   \<not> isValidEBirdCode (fieldOf exEBirdRowBadCode ''SPECIES_CODE'') \<and>
   isValidAlpha4Code (fieldOf exTrinomialRow ''SPEC'') \<and>
   \<not> isValidScientificName (normalizeScientificName (fieldOf exTrinomialRow ''SCINAME''))"
proof -
  have e: "map err_type (errorsAcc (emptyAcc :: EBirdRawRecord ParseAcc)) = []"
    and i: "map err_type (errorsAcc (emptyAcc :: IBPRawRecord ParseAcc)) = []"
    by (simp_all add: emptyAcc_def)
  have h1: "nameRejectedEBird (fieldOf exEBirdRowBothBad ''SCI_NAME'') \<and>
      fieldOf exEBirdRowBothBad ''SPECIES_CODE'' \<noteq> [] \<and>
      fieldOf exEBirdRowBothBad ''SCI_NAME'' \<noteq> [] \<and>
      \<not> (False \<and> fieldOf exEBirdRowBothBad ''CATEGORY'' \<noteq> ''species'')"
    using nameRejectedEBird_exEBirdRowBothBad by (simp add: exEBirdRowBothBad_fields)
  have h3: "\<not> isValidAlpha4Code (fieldOf exIBPRowBothBad ''SPEC'') \<and>
      fieldOf exIBPRowBothBad ''SPEC'' \<noteq> [] \<and> fieldOf exIBPRowBothBad ''SCINAME'' \<noteq> [] \<and>
      \<not> (False \<and> fieldOf exIBPRowBothBad ''SP'' = ''+'')"
    by (simp add: exIBPRowBothBad_fields code_examples)
  have h2: "map err_type (errorsAcc (processEBirdRow False emptyAcc (0, exEBirdRowBadCode))) =
      map err_type (errorsAcc (emptyAcc :: EBirdRawRecord ParseAcc)) @ [INVALID_EBIRD_CODE]"
    using processEBirdRow_exEBirdRowBadCode e by simp
  have h4: "map err_type (errorsAcc (processIBPRow False emptyAcc (0, exTrinomialRow))) =
      map err_type (errorsAcc (emptyAcc :: IBPRawRecord ParseAcc)) @ [INVALID_SCIENTIFIC_NAME]"
    using processIBPRow_exTrinomialRow i by simp
  have both: "map err_type (errorsAcc (processEBirdRow False emptyAcc (0, exEBirdRowBothBad))) =
       [INVALID_SCIENTIFIC_NAME] \<and>
     map err_type (errorsAcc (processIBPRow False emptyAcc (0, exIBPRowBothBad))) =
       [INVALID_ALPHA4_CODE]"
    using validation_order_per_row[where r = exEBirdRowBothBad and f = False and acc = emptyAcc
        and idx = 0 and q = exIBPRowBothBad and x = False and acc' = emptyAcc and idx' = 0]
      h1 h3 e i
    by simp
  have one: "\<not> nameRejectedEBird (fieldOf exEBirdRowBadCode ''SCI_NAME'') \<and>
     \<not> isValidEBirdCode (fieldOf exEBirdRowBadCode ''SPECIES_CODE'') \<and>
     isValidAlpha4Code (fieldOf exTrinomialRow ''SPEC'') \<and>
     \<not> isValidScientificName (normalizeScientificName (fieldOf exTrinomialRow ''SCINAME''))"
    using validation_order_per_row[where r = exEBirdRowBadCode and f = False and acc = emptyAcc
        and idx = 0 and q = exTrinomialRow and x = False and acc' = emptyAcc and idx' = 0]
      h2 h4
    by blast
  have rest: "\<not> isValidEBirdCode (fieldOf exEBirdRowBothBad ''SPECIES_CODE'') \<and>
     \<not> isValidScientificName (normalizeScientificName (fieldOf exIBPRowBothBad ''SCINAME''))"
    by (simp add: exEBirdRowBothBad_fields exIBPRowBothBad_fields code_examples
        normalize_examples name_examples)
  from both one rest show ?thesis by blast
qed

section \<open>The joins\<close>

subsection \<open>The exact join\<close>

lemma set_setAdd: "set (setAdd x s) = insert x (set s)"
  by (auto simp: setAdd_def)

lemma distinct_setAdd: "distinct s \<Longrightarrow> distinct (setAdd x s)"
  by (simp add: setAdd_def)

lemma mem_iff_count: "n \<in> set names \<longleftrightarrow> 1 \<le> length (filter (\<lambda>m. m = n) names)"
  by (induction names) auto

lemma scan_foldl:
  "n \<in> set (snd (foldl (\<lambda>sd n. (setAdd n (fst sd), if setHas (fst sd) n then setAdd n (snd sd) else snd sd))
            (seen, dups) names)) \<longleftrightarrow>
   n \<in> set dups \<or> (n \<in> set names \<and> n \<in> set seen) \<or> 2 \<le> length (filter (\<lambda>m. m = n) names)"
proof (induction names arbitrary: seen dups)
  case Nil
  show ?case by simp
next
  case (Cons a names)
  let ?step = "\<lambda>sd n. (setAdd n (fst sd), if setHas (fst sd) n then setAdd n (snd sd) else snd sd)"
  define seen' where "seen' = setAdd a seen"
  define dups' where "dups' = (if setHas seen a then setAdd a dups else dups)"
  have s: "set seen' = insert a (set seen)"
    and d: "set dups' = (if a \<in> set seen then insert a (set dups) else set dups)"
    by (simp_all add: seen'_def dups'_def set_setAdd setHas_def)
  have "n \<in> set (snd (foldl ?step (seen, dups) (a # names))) \<longleftrightarrow>
        n \<in> set (snd (foldl ?step (seen', dups') names))"
    by (simp add: seen'_def dups'_def)
  also have "\<dots> \<longleftrightarrow> n \<in> set dups' \<or> (n \<in> set names \<and> n \<in> set seen') \<or>
        2 \<le> length (filter (\<lambda>m. m = n) names)"
    by (rule Cons.IH)
  also have "\<dots> \<longleftrightarrow> n \<in> set dups \<or> (n \<in> set (a # names) \<and> n \<in> set seen) \<or>
        2 \<le> length (filter (\<lambda>m. m = n) (a # names))"
    unfolding s d using mem_iff_count[of n names] by (cases "a = n") auto
  finally show ?case .
qed

lemma scanDuplicates_set:
  "n \<in> set (scanDuplicates names dups) \<longleftrightarrow>
   n \<in> set dups \<or> 2 \<le> length (filter (\<lambda>m. m = n) names)"
  unfolding scanDuplicates_def by (simp add: scan_foldl)

lemma filter_map_name:
  "length (filter (\<lambda>m. m = n) (map f rs)) = length (filter (\<lambda>r. f r = n) rs)"
  by (induction rs) auto

lemma index_last_wins:
  "map_of (foldl (\<lambda>m r. mapSet (f r) r m) [] rs) n = lastWithName f n rs"
proof (induction rs rule: rev_induct)
  case Nil
  show ?case by (simp add: lastWithName_def)
next
  case (snoc r rs)
  then show ?case by (simp add: map_of_mapSet lastWithName_def)
qed

lemma mapGet_indexEBird: "mapGet (indexEBird es) n = lastWithName scientificName n es"
  by (simp add: mapGet_def indexEBird_def index_last_wins)

lemma mapGet_indexIBP: "mapGet (indexIBP is) n = lastWithName scientificName_ibp n is"
  by (simp add: mapGet_def indexIBP_def index_last_wins)

lemma mapSet_keys: "fst ` set (mapSet k v m) = insert k (fst ` set m)"
  by (induction m) auto

lemma index_keys:
  "fst ` set (foldl (\<lambda>m r. mapSet (f r) r m) m0 rs) = fst ` set m0 \<union> f ` set rs"
proof (induction rs arbitrary: m0)
  case Nil
  show ?case by simp
next
  case (Cons r rs)
  show ?case by (simp add: Cons.IH mapSet_keys)
qed

lemma setAdd_foldl: "set (foldl (\<lambda>s k. setAdd k s) s0 ks) = set s0 \<union> set ks"
  by (induction ks arbitrary: s0) (simp_all add: set_setAdd)

lemma allScientificNames_set:
  "set (allScientificNames (indexEBird es) (indexIBP is)) =
     scientificName ` set es \<union> scientificName_ibp ` set is"
  by (simp add: allScientificNames_def setAdd_foldl mapKeys_def indexEBird_def indexIBP_def
      index_keys)

lemma find_SomeD: "find P xs = Some x \<Longrightarrow> x \<in> set xs \<and> P x"
  by (induction xs) (auto split: if_splits)

lemma lastWithName_SomeD: "lastWithName f n rs = Some r \<Longrightarrow> r \<in> set rs \<and> f r = n"
  unfolding lastWithName_def using find_SomeD[of "\<lambda>r. f r = n" "rev rs" r] by simp

lemma exactStep_lenient:
  "\<not> optStrictMode opts \<Longrightarrow> fst (exactStep opts em im st n) = fst st @ joinedFor em im n"
  by (simp add: exactStep_def joinedFor_def Let_def split: option.splits)

lemma exact_loop_lenient:
  "\<not> optStrictMode opts \<Longrightarrow>
   fst (foldl (exactStep opts em im) st names) = fst st @ concat (map (joinedFor em im) names)"
  by (induction names arbitrary: st) (simp_all add: exactStep_lenient)

lemma resolve_strict: "optStrictMode (resolveOptions opts) \<longleftrightarrow> strictMode opts = Some True"
  by (simp add: resolveOptions_def defaultJoinOptions_def split: option.splits)

lemma duplicates_field:
  "duplicateScientificNames (joinByScientificName es is opts) =
     scanDuplicates (map scientificName_ibp is) (scanDuplicates (map scientificName es) [])"
  by (simp add: joinByScientificName_def Let_def scanDuplicates_def)

lemma duplicates_join:
  "n \<in> set (duplicateScientificNames (joinByScientificName es is opts)) \<longleftrightarrow>
     2 \<le> length (filter (\<lambda>r. scientificName r = n) es) \<or>
     2 \<le> length (filter (\<lambda>r. scientificName_ibp r = n) is)"
  unfolding duplicates_field scanDuplicates_set filter_map_name by simp

lemma strict_join:
  "strictMode opts = Some True \<Longrightarrow>
   duplicateScientificNames (joinByScientificName es is opts) \<noteq> [] \<Longrightarrow>
   \<not> successJ (joinByScientificName es is opts) \<and> matched (joinByScientificName es is opts) = []"
  by (auto simp: joinByScientificName_def Let_def resolve_strict split: if_splits)

lemma lenient_join_matched:
  assumes "strictMode opts \<noteq> Some True"
  shows "matched (joinByScientificName es is opts) =
     concat (map (joinedFor (indexEBird es) (indexIBP is))
       (allScientificNames (indexEBird es) (indexIBP is)))"
proof (cases "es = [] \<and> is = []")
  case True
  then show ?thesis
    by (simp add: joinByScientificName_def allScientificNames_def indexEBird_def indexIBP_def
        mapKeys_def)
next
  case False
  with assms show ?thesis
    by (auto simp: joinByScientificName_def Let_def resolve_strict exact_loop_lenient)
qed

lemma lenient_join_mem:
  assumes "strictMode opts \<noteq> Some True"
  shows "j \<in> set (matched (joinByScientificName es is opts)) \<longleftrightarrow>
     (\<exists>e i. lastWithName scientificName (scientificName_j j) es = Some e \<and>
            lastWithName scientificName_ibp (scientificName_j j) is = Some i \<and>
            j = makeJoined e i)"
proof
  assume "j \<in> set (matched (joinByScientificName es is opts))"
  then obtain n where n: "j \<in> set (joinedFor (indexEBird es) (indexIBP is) n)"
    unfolding lenient_join_matched[OF assms] by auto
  then obtain e i where ei: "lastWithName scientificName n es = Some e"
      "lastWithName scientificName_ibp n is = Some i" "j = makeJoined e i"
    by (cases "lastWithName scientificName n es"; cases "lastWithName scientificName_ibp n is")
       (simp_all add: joinedFor_def mapGet_indexEBird mapGet_indexIBP)
  from lastWithName_SomeD[OF ei(1)] ei(3) have "scientificName_j j = n"
    by (simp add: makeJoined_def)
  with ei show "\<exists>e i. lastWithName scientificName (scientificName_j j) es = Some e \<and>
            lastWithName scientificName_ibp (scientificName_j j) is = Some i \<and>
            j = makeJoined e i" by blast
next
  assume "\<exists>e i. lastWithName scientificName (scientificName_j j) es = Some e \<and>
            lastWithName scientificName_ibp (scientificName_j j) is = Some i \<and>
            j = makeJoined e i"
  then obtain e i where ei: "lastWithName scientificName (scientificName_j j) es = Some e"
      "lastWithName scientificName_ibp (scientificName_j j) is = Some i" "j = makeJoined e i"
    by blast
  from lastWithName_SomeD[OF ei(1)]
  have "scientificName_j j \<in> set (allScientificNames (indexEBird es) (indexIBP is))"
    unfolding allScientificNames_set by force
  moreover have "j \<in> set (joinedFor (indexEBird es) (indexIBP is) (scientificName_j j))"
    using ei by (simp add: joinedFor_def mapGet_indexEBird mapGet_indexIBP)
  ultimately show "j \<in> set (matched (joinByScientificName es is opts))"
    unfolding lenient_join_matched[OF assms] by auto
qed

text \<open>
  Claim C6. In the exact join a name is among the duplicates exactly when at least two
  records of one side carry it, and the statistics count the duplicates. In strict mode
  any duplicate makes the join return no success and no matched record. Outside strict mode the join goes on: the index of each
  side holds, for every name, the last record of the side with that name, and the matched
  records are exactly the pairs of these last records for the names that both sides have.
\<close>

theorem joinByScientificName_duplicates:
  "(n \<in> set (duplicateScientificNames (joinByScientificName es is opts)) \<longleftrightarrow>
      2 \<le> length (filter (\<lambda>r. scientificName r = n) es) \<or>
      2 \<le> length (filter (\<lambda>r. scientificName_ibp r = n) is)) \<and>
   (strictMode opts = Some True \<and>
      duplicateScientificNames (joinByScientificName es is opts) \<noteq> [] \<longrightarrow>
    \<not> successJ (joinByScientificName es is opts) \<and>
    matched (joinByScientificName es is opts) = [] \<and>
    successfulMatches (statsJ (joinByScientificName es is opts)) = 0) \<and>
   duplicateScientificNamesCount (statsJ (joinByScientificName es is opts)) =
     length (duplicateScientificNames (joinByScientificName es is opts)) \<and>
   mapGet (indexEBird es) n = lastWithName scientificName n es \<and>
   mapGet (indexIBP is) n = lastWithName scientificName_ibp n is \<and>
   (strictMode opts \<noteq> Some True \<longrightarrow>
    (j \<in> set (matched (joinByScientificName es is opts)) \<longleftrightarrow>
     (\<exists>e i. lastWithName scientificName (scientificName_j j) es = Some e \<and>
            lastWithName scientificName_ibp (scientificName_j j) is = Some i \<and>
            j = makeJoined e i)))"
proof -
  have "strictMode opts = Some True \<Longrightarrow>
      duplicateScientificNames (joinByScientificName es is opts) \<noteq> [] \<Longrightarrow>
      successfulMatches (statsJ (joinByScientificName es is opts)) = 0"
    by (auto simp: joinByScientificName_def Let_def resolve_strict split: if_splits)
  moreover have "duplicateScientificNamesCount (statsJ (joinByScientificName es is opts)) =
     length (duplicateScientificNames (joinByScientificName es is opts))"
    by (simp add: joinByScientificName_def Let_def)
  ultimately show ?thesis
    using duplicates_join[of n es "is" opts] strict_join[of opts es "is"]
      mapGet_indexEBird[of es n] mapGet_indexIBP[of "is" n] lenient_join_mem[of opts j es "is"]
    by blast
qed

lemma example_last_records:
  "lastWithName scientificName ''Corvus brachyrhynchos'' [exCrowFirst, exMallard, exCrowLater] =
     Some exCrowLater"
  "lastWithName scientificName_ibp ''Corvus brachyrhynchos'' [exAMCR, exMALL] = Some exAMCR"
  "length (filter (\<lambda>r. scientificName r = ''Corvus brachyrhynchos'')
     [exCrowFirst, exMallard, exCrowLater]) = 2"
  "scientificName_j (makeJoined exCrowLater exAMCR) = ''Corvus brachyrhynchos''"
  "scientificName_j (makeJoined exCrowFirst exAMCR) = ''Corvus brachyrhynchos''"
  "makeJoined exCrowFirst exAMCR \<noteq> makeJoined exCrowLater exAMCR"
  by (simp_all add: lastWithName_def exCrowFirst_def exMallard_def exCrowLater_def exAMCR_def
      exMALL_def makeJoined_def)

text \<open>The theorem at a checklist side with the crow's name twice: strict mode aborts;
  outside strict mode the later crow record is the one that is joined.\<close>

theorem joinByScientificName_duplicates_witness:
  "\<not> successJ (joinByScientificName [exCrowFirst, exMallard, exCrowLater] [exAMCR, exMALL]
        strictOptions) \<and>
   matched (joinByScientificName [exCrowFirst, exMallard, exCrowLater] [exAMCR, exMALL]
        strictOptions) = [] \<and>
   makeJoined exCrowLater exAMCR \<in>
     set (matched (joinByScientificName [exCrowFirst, exMallard, exCrowLater] [exAMCR, exMALL]
        noJoinOptions)) \<and>
   makeJoined exCrowFirst exAMCR \<notin>
     set (matched (joinByScientificName [exCrowFirst, exMallard, exCrowLater] [exAMCR, exMALL]
        noJoinOptions))"
proof -
  let ?es = "[exCrowFirst, exMallard, exCrowLater]"
  let ?is = "[exAMCR, exMALL]"
  have s: "strictMode strictOptions = Some True" "strictMode noJoinOptions \<noteq> Some True"
    by (simp_all add: strictOptions_def noJoinOptions_def)
  have "''Corvus brachyrhynchos'' \<in>
      set (duplicateScientificNames (joinByScientificName ?es ?is strictOptions))"
    using joinByScientificName_duplicates[of "''Corvus brachyrhynchos''" ?es ?is strictOptions]
      example_last_records(3)
    by simp
  then have d: "duplicateScientificNames (joinByScientificName ?es ?is strictOptions) \<noteq> []"
    by auto
  have strict: "\<not> successJ (joinByScientificName ?es ?is strictOptions) \<and>
      matched (joinByScientificName ?es ?is strictOptions) = []"
    using joinByScientificName_duplicates[of "''Corvus brachyrhynchos''" ?es ?is strictOptions]
      s(1) d
    by blast
  have later: "makeJoined exCrowLater exAMCR \<in>
      set (matched (joinByScientificName ?es ?is noJoinOptions))"
    using joinByScientificName_duplicates[of "''Corvus brachyrhynchos''" ?es ?is noJoinOptions
        "makeJoined exCrowLater exAMCR"] s(2) example_last_records(1,2,4)
    by simp
  have first: "makeJoined exCrowFirst exAMCR \<notin>
      set (matched (joinByScientificName ?es ?is noJoinOptions))"
    using joinByScientificName_duplicates[of "''Corvus brachyrhynchos''" ?es ?is noJoinOptions
        "makeJoined exCrowFirst exAMCR"] s(2) example_last_records(1,2,5,6)
    by simp
  from strict later first show ?thesis by blast
qed

subsection \<open>The variant-aware join\<close>

lemma getOrEmpty_mapSet:
  "getOrEmpty (mapSet k v m) n = (if n = k then v else getOrEmpty m n)"
  by (simp add: getOrEmpty_def mapGet_def map_of_mapSet)

lemma indexVariants_foldl:
  "getOrEmpty (fst (foldl (indexVariantsStep heap) ix ibp)) n =
     getOrEmpty (fst ix) n @ filter (\<lambda>r. scientificName_ibp (heap r) = n) ibp \<and>
   getOrEmpty (snd (foldl (indexVariantsStep heap) ix ibp)) k =
     getOrEmpty (snd ix) k @ filter (\<lambda>r. toBinomial (scientificName_ibp (heap r)) = k) ibp"
proof (induction ibp arbitrary: ix)
  case Nil
  show ?case by simp
next
  case (Cons r ibp)
  have "getOrEmpty (fst (indexVariantsStep heap ix r)) n =
          (if scientificName_ibp (heap r) = n then getOrEmpty (fst ix) n @ [r]
           else getOrEmpty (fst ix) n)"
    and "getOrEmpty (snd (indexVariantsStep heap ix r)) k =
          (if toBinomial (scientificName_ibp (heap r)) = k then getOrEmpty (snd ix) k @ [r]
           else getOrEmpty (snd ix) k)"
    by (auto simp: indexVariantsStep_def Let_def getOrEmpty_mapSet)
  then show ?case by (simp add: Cons.IH)
qed

lemma indexVariants_full:
  "getOrEmpty (fst (indexVariants heap ibp)) n = filter (\<lambda>r. scientificName_ibp (heap r) = n) ibp"
  using indexVariants_foldl[of heap "([], [])" ibp n]
  by (simp add: indexVariants_def getOrEmpty_def mapGet_def)

lemma indexVariants_binomial:
  "getOrEmpty (snd (indexVariants heap ibp)) k =
     filter (\<lambda>r. toBinomial (scientificName_ibp (heap r)) = k) ibp"
  using indexVariants_foldl[of heap "([], [])" ibp _ k]
  by (simp add: indexVariants_def getOrEmpty_def mapGet_def)

lemma find_filter: "find P (filter Q xs) = find (\<lambda>x. Q x \<and> P x) xs"
  by (induction xs) auto

lemma chooseIBP_spec:
  "chooseIBP (fst (indexVariants heap ibp)) (snd (indexVariants heap ibp)) consumed e =
     (case find (\<lambda>b. scientificName_ibp (heap b) = scientificName e \<and> b \<notin> set consumed) ibp of
        Some b \<Rightarrow> Some b
      | None \<Rightarrow>
          find (\<lambda>b. toBinomial (scientificName_ibp (heap b)) = toBinomial (scientificName e) \<and>
                    b \<notin> set consumed) ibp)"
  by (simp add: chooseIBP_def Let_def indexVariants_full indexVariants_binomial find_filter
      setHas_def split: option.splits)

lemma variantStep_skip:
  "policySkips pol e \<Longrightarrow> variantStep pol heap F B st e = st"
  by (simp add: variantStep_def)

lemma variantStep_chosen:
  "\<not> policySkips pol e \<Longrightarrow> chooseIBP F B c e = Some b \<Longrightarrow>
   variantStep pol heap F B (m, ue, c) e = (m @ [makeJoined e (heap b)], ue, setAdd b c)"
  by (simp add: variantStep_def)

lemma variantStep_unmatched:
  "\<not> policySkips pol e \<Longrightarrow> chooseIBP F B c e = None \<Longrightarrow>
   variantStep pol heap F B (m, ue, c) e = (m, ue @ [e], c)"
  by (simp add: variantStep_def)

lemma variantLoop_spec:
  "foldl (variantStep pol heap (fst (indexVariants heap ibp)) (snd (indexVariants heap ibp)))
     (m, ue, c) es =
   (m @ matchedOf heap es (specOutcomes pol heap ibp c es),
    ue @ unmatchedOf es (specOutcomes pol heap ibp c es),
    c @ chosenRefs (specOutcomes pol heap ibp c es))"
proof (induction es arbitrary: m ue c)
  case Nil
  show ?case by simp
next
  case (Cons e es)
  let ?F = "fst (indexVariants heap ibp)" and ?B = "snd (indexVariants heap ibp)"
  show ?case
  proof (cases "policySkips pol e")
    case True
    then show ?thesis by (simp add: variantStep_skip Cons.IH)
  next
    case False
    show ?thesis
    proof (cases "find (\<lambda>b. scientificName_ibp (heap b) = scientificName e \<and> b \<notin> set c) ibp")
      case (Some b)
      then have "b \<notin> set c" using find_SomeD by fastforce
      then have a: "setAdd b c = c @ [b]" by (simp add: setAdd_def)
      from Some have "chooseIBP ?F ?B c e = Some b" by (simp add: chooseIBP_spec)
      from variantStep_chosen[OF False this] False Some a show ?thesis
        by (simp add: Cons.IH)
    next
      case None
      note exact = None
      show ?thesis
      proof (cases "find (\<lambda>b. toBinomial (scientificName_ibp (heap b)) =
                        toBinomial (scientificName e) \<and> b \<notin> set c) ibp")
        case (Some b)
        then have "b \<notin> set c" using find_SomeD by fastforce
        then have a: "setAdd b c = c @ [b]" by (simp add: setAdd_def)
        from exact Some have "chooseIBP ?F ?B c e = Some b" by (simp add: chooseIBP_spec)
        from variantStep_chosen[OF False this] False exact Some a show ?thesis
          by (simp add: Cons.IH)
      next
        case None
        with exact have "chooseIBP ?F ?B c e = None" by (simp add: chooseIBP_spec)
        from variantStep_unmatched[OF False this] False exact None show ?thesis
          by (simp add: Cons.IH)
      qed
    qed
  qed
qed

text \<open>A banding record chosen later was not consumed before, and is one of the list.\<close>

lemma chosen_fresh:
  "Chosen b \<in> set (specOutcomes pol heap ibp c es) \<Longrightarrow> b \<notin> set c \<and> b \<in> set ibp"
proof (induction es arbitrary: c)
  case Nil
  then show ?case by simp
next
  case (Cons e es)
  show ?case
  proof (cases "policySkips pol e")
    case True
    with Cons show ?thesis by simp
  next
    case False
    show ?thesis
    proof (cases "find (\<lambda>b. scientificName_ibp (heap b) = scientificName e \<and> b \<notin> set c) ibp")
      case (Some b')
      from find_SomeD[OF Some] have "b' \<notin> set c" "b' \<in> set ibp" by simp_all
      with Cons.prems False Some Cons.IH[of "c @ [b']"] show ?thesis by auto
    next
      case None
      note exact = None
      show ?thesis
      proof (cases "find (\<lambda>b. toBinomial (scientificName_ibp (heap b)) =
                        toBinomial (scientificName e) \<and> b \<notin> set c) ibp")
        case (Some b')
        from find_SomeD[OF Some] have "b' \<notin> set c" "b' \<in> set ibp" by simp_all
        with Cons.prems False exact Some Cons.IH[of "c @ [b']"] show ?thesis by auto
      next
        case None
        with Cons.prems False exact Cons.IH[of c] show ?thesis by auto
      qed
    qed
  qed
qed

lemma chosenRefs_set: "b \<in> set (chosenRefs os) \<longleftrightarrow> Chosen b \<in> set os"
  by (induction os rule: chosenRefs.induct) auto

lemma chosen_distinct: "distinct (chosenRefs (specOutcomes pol heap ibp c es))"
proof (induction es arbitrary: c)
  case Nil
  show ?case by simp
next
  case (Cons e es)
  have fresh: "\<And>b'. b' \<notin> set (chosenRefs (specOutcomes pol heap ibp (c @ [b']) es))"
    using chosen_fresh[of _ pol heap ibp "c @ [_]" es] by (auto simp: chosenRefs_set)
  show ?case
    by (simp add: Cons.IH fresh split: option.splits)
qed


lemma length_specOutcomes: "length (specOutcomes pol heap ibp c es) = length es"
  by (induction es arbitrary: c) (simp_all split: option.splits)

lemma specOutcomes_append:
  "specOutcomes pol heap ibp c (xs @ ys) =
     specOutcomes pol heap ibp c xs @
     specOutcomes pol heap ibp (c @ chosenRefs (specOutcomes pol heap ibp c xs)) ys"
  by (induction xs arbitrary: c) (simp_all split: option.splits)

lemma find_NoneD: "find P xs = None \<Longrightarrow> x \<in> set xs \<Longrightarrow> \<not> P x"
  by (induction xs) (auto split: if_splits)

text \<open>The record at the head of the processing order is served before any later one.\<close>

lemma head_served_first:
  assumes adm: "\<not> policySkips pol e"
    and later: "Chosen b \<in> set (tl (specOutcomes pol heap ibp c (e # es)))"
    and bin: "toBinomial (scientificName e) = toBinomial (scientificName_ibp (heap b))"
  shows "\<exists>b'. hd (specOutcomes pol heap ibp c (e # es)) = Chosen b' \<and> b' \<noteq> b \<and>
           (scientificName e = scientificName_ibp (heap b) \<longrightarrow>
            scientificName_ibp (heap b') = scientificName e)"
proof (cases "find (\<lambda>b. scientificName_ibp (heap b) = scientificName e \<and> b \<notin> set c) ibp")
  case (Some b')
  with adm later have "Chosen b \<in> set (specOutcomes pol heap ibp (c @ [b']) es)" by simp
  from chosen_fresh[OF this] have "b \<noteq> b'" by auto
  moreover from find_SomeD[OF Some] have "scientificName_ibp (heap b') = scientificName e"
    by simp
  ultimately show ?thesis using adm Some by simp
next
  case None
  note exact = None
  show ?thesis
  proof (cases "find (\<lambda>b. toBinomial (scientificName_ibp (heap b)) =
                    toBinomial (scientificName e) \<and> b \<notin> set c) ibp")
    case (Some b')
    with adm exact later have "Chosen b \<in> set (specOutcomes pol heap ibp (c @ [b']) es)"
      by simp
    from chosen_fresh[OF this] have f: "b \<noteq> b'" "b \<notin> set c" "b \<in> set ibp" by auto
    from find_NoneD[OF exact f(3)] f(2)
    have "scientificName e \<noteq> scientificName_ibp (heap b)" by auto
    with f(1) adm exact Some show ?thesis by simp
  next
    case None
    with adm exact later have "Chosen b \<in> set (specOutcomes pol heap ibp c es)" by simp
    from chosen_fresh[OF this] have "b \<notin> set c" "b \<in> set ibp" by auto
    with find_NoneD[OF None, of b] bin show ?thesis by simp
  qed
qed

lemma earlier_served_first:
  assumes ij: "i < j" "j < length es"
    and cj: "specOutcomes pol heap ibp c es ! j = Chosen b"
    and adm: "\<not> policySkips pol (es ! i)"
    and bin: "toBinomial (scientificName (es ! i)) = toBinomial (scientificName_ibp (heap b))"
  shows "\<exists>b'. specOutcomes pol heap ibp c es ! i = Chosen b' \<and> b' \<noteq> b \<and>
           (scientificName (es ! i) = scientificName_ibp (heap b) \<longrightarrow>
            scientificName_ibp (heap b') = scientificName (es ! i))"
proof -
  let ?pre = "take i es" and ?post = "drop (Suc i) es"
  let ?c = "c @ chosenRefs (specOutcomes pol heap ibp c ?pre)"
  let ?rest = "specOutcomes pol heap ibp ?c (es ! i # ?post)"
  from ij have i: "i < length es" by simp
  then have split: "es = ?pre @ es ! i # ?post" by (simp add: id_take_nth_drop)
  have outs: "specOutcomes pol heap ibp c es = specOutcomes pol heap ibp c ?pre @ ?rest"
    by (subst split) (simp only: specOutcomes_append)
  have lpre: "length (specOutcomes pol heap ibp c ?pre) = i"
    using i by (simp add: length_specOutcomes)
  have lrest: "length ?rest = length es - i"
    using i by (simp only: length_specOutcomes) simp
  have ne: "?rest \<noteq> []" using lrest i by (auto simp del: specOutcomes.simps)
  have at_i: "specOutcomes pol heap ibp c es ! i = hd ?rest"
    using lpre ne by (simp only: outs nth_append) (simp add: hd_conv_nth del: specOutcomes.simps)
  have "specOutcomes pol heap ibp c es ! j = ?rest ! (j - i)"
    using lpre ij by (simp only: outs nth_append) (simp del: specOutcomes.simps)
  also have "\<dots> = tl ?rest ! (j - i - 1)"
    using ij lrest
    by (cases ?rest) (simp_all del: specOutcomes.simps)
  finally have "Chosen b = tl ?rest ! (j - i - 1)" using cj by (simp del: specOutcomes.simps)
  moreover have "j - i - 1 < length (tl ?rest)"
    using lrest ij by (simp del: specOutcomes.simps)
  ultimately have "Chosen b \<in> set (tl ?rest)" by (metis nth_mem)
  from head_served_first[OF adm this bin] show ?thesis unfolding at_i .
qed

lemma insort_rank_past:
  "\<forall>y\<in>set ys. f y < f x \<Longrightarrow> insort_key f x (ys @ zs) = ys @ insort_key f x zs"
  by (induction ys) auto

lemma rank_le_2: "rank e \<le> 2" by (simp add: rank_def)

lemma ebirdSorted_blocks:
  "ebirdSorted es =
     filter (\<lambda>e. rank e = 0) es @ filter (\<lambda>e. rank e = 1) es @ filter (\<lambda>e. rank e = 2) es"
proof (induction es)
  case Nil
  show ?case by (simp add: ebirdSorted_def)
next
  case (Cons e es)
  let ?A = "filter (\<lambda>e. rank e = 0) es" and ?B = "filter (\<lambda>e. rank e = 1) es"
    and ?C = "filter (\<lambda>e. rank e = 2) es"
  have ih: "sort_key rank es = ?A @ ?B @ ?C" using Cons.IH by (simp add: ebirdSorted_def)
  consider "rank e = 0" | "rank e = 1" | "rank e = 2" using rank_le_2[of e] by linarith
  then show ?case
  proof cases
    case 1
    then have "insort_key rank e (?A @ ?B @ ?C) = e # ?A @ ?B @ ?C"
      by (intro insort_is_Cons) simp
    with 1 show ?thesis by (simp add: ebirdSorted_def ih)
  next
    case 2
    have "insort_key rank e (?A @ ?B @ ?C) = ?A @ insort_key rank e (?B @ ?C)"
      using 2 by (intro insort_rank_past) simp
    also have "insort_key rank e (?B @ ?C) = e # ?B @ ?C"
      using 2 by (intro insort_is_Cons) auto
    finally show ?thesis using 2 by (simp add: ebirdSorted_def ih)
  next
    case 3
    have "insort_key rank e (?A @ ?B @ ?C) = ?A @ insort_key rank e (?B @ ?C)"
      using 3 by (intro insort_rank_past) simp
    also have "insort_key rank e (?B @ ?C) = ?B @ insort_key rank e ?C"
      using 3 by (intro insort_rank_past) simp
    also have "insort_key rank e ?C = e # ?C"
      using 3 by (intro insort_is_Cons) simp
    finally show ?thesis using 3 by (simp add: ebirdSorted_def ih)
  qed
qed

lemma ebirdSorted_rank_order:
  assumes "i < length (ebirdSorted es)" "j < length (ebirdSorted es)"
    and "rank (ebirdSorted es ! i) < rank (ebirdSorted es ! j)"
  shows "i < j"
proof (rule ccontr)
  assume "\<not> i < j"
  then have "j \<le> i" by simp
  moreover have "sorted (map rank (ebirdSorted es))" by (simp add: ebirdSorted_def)
  ultimately have "map rank (ebirdSorted es) ! j \<le> map rank (ebirdSorted es) ! i"
    using assms(1) by (intro sorted_nth_mono) simp_all
  with assms show False by simp
qed


lemma variantLoop_outcomes:
  "variantLoop heap es ibp opts =
     (matchedOf heap (ebirdSorted es) (variantOutcomes heap es ibp opts),
      unmatchedOf (ebirdSorted es) (variantOutcomes heap es ibp opts),
      chosenRefs (variantOutcomes heap es ibp opts))"
  using variantLoop_spec[of _ heap ibp "[]" "[]" "[]" "ebirdSorted es"]
  by (simp add: variantLoop_def variantOutcomes_def Let_def)

lemma matchedOf_alpha4:
  "length os = length es \<Longrightarrow>
   map alpha4Code_j (matchedOf heap es os) = map (\<lambda>b. alpha4Code (heap b)) (chosenRefs os)"
  by (induction heap es os rule: matchedOf.induct) (simp_all add: makeJoined_def)

lemma example_banding:
  "exHeap 0 = exSNGO" "exHeap 1 = exBLGO" "exHeap (Suc 0) = exBLGO" "exHeap 2 = exICGU"
  "scientificName_ibp exSNGO = ''Anser caerulescens''"
  "scientificName_ibp exBLGO = ''Anser caerulescens''"
  "scientificName_ibp exICGU = ''Larus glaucoides''"
  by (simp_all add: exHeap_def exSNGO_def exBLGO_def exICGU_def)

lemma example_checklist:
  "scientificName exSnowGoose = ''Anser caerulescens''"
  "scientificName exLesserSnowGoose = ''Anser caerulescens caerulescens''"
  "scientificName exKumlien = ''Larus glaucoides kumlieni''"
  "rank exSnowGoose = 0" "rank exLesserSnowGoose = 1" "rank exKumlien = 1"
  "category exSnowGoose = ''species''" "category exLesserSnowGoose = ''issf''"
  "category exKumlien = ''issf''"
  by (simp_all add: exSnowGoose_def exLesserSnowGoose_def exKumlien_def rank_def)

lemma example_binomials:
  "toBinomial ''Anser caerulescens'' = ''Anser caerulescens''"
  "toBinomial ''Anser caerulescens caerulescens'' = ''Anser caerulescens''"
  "toBinomial ''Larus glaucoides'' = ''Larus glaucoides''"
  "toBinomial ''Larus glaucoides kumlieni'' = ''Larus glaucoides''"
  by (simp_all add: toBinomial_def)

lemma example_policies:
  "optVariantPolicy (resolveOptions noJoinOptions) = PolicyAll"
  "optVariantPolicy (resolveOptions speciesOnlyOptions) = PolicySpecies"
  by (simp_all add: resolveOptions_def noJoinOptions_def speciesOnlyOptions_def
      defaultJoinOptions_def)

lemma example_sorted:
  "ebirdSorted [exLesserSnowGoose, exSnowGoose] = [exSnowGoose, exLesserSnowGoose]"
  "ebirdSorted [exKumlien] = [exKumlien]"
  by (simp_all add: ebirdSorted_def example_checklist)

lemma example_outcomes_geese:
  "variantOutcomes exHeap [exLesserSnowGoose, exSnowGoose] [0, 1] noJoinOptions =
     [Chosen 0, Chosen 1]"
  by (simp add: variantOutcomes_def example_sorted example_policies policySkips_def
      example_banding example_checklist example_binomials)

lemma example_outcomes_geese_Suc:
  "variantOutcomes exHeap [exLesserSnowGoose, exSnowGoose] [0, Suc 0] noJoinOptions =
     [Chosen 0, Chosen (Suc 0)]"
  using example_outcomes_geese by simp

lemma example_outcomes_gull:
  "variantOutcomes exHeap [exKumlien] [2] noJoinOptions = [Chosen 2]"
  by (simp add: variantOutcomes_def example_sorted example_policies policySkips_def
      example_banding example_checklist example_binomials)

lemma example_outcomes_species_only:
  "variantOutcomes exHeap [exLesserSnowGoose, exSnowGoose] [0, 1] speciesOnlyOptions =
     [Chosen 0, Skipped]"
  by (simp add: variantOutcomes_def example_sorted example_policies policySkips_def
      example_banding example_checklist example_binomials)

lemma example_outcomes_species_only_Suc:
  "variantOutcomes exHeap [exLesserSnowGoose, exSnowGoose] [0, Suc 0] speciesOnlyOptions =
     [Chosen 0, Skipped]"
  using example_outcomes_species_only by simp

text \<open>
  Claim C3. The join with its two indexes does what the description's steps do on the
  plain list of banding records (\<open>specOutcomes\<close>: for every checklist record an exact
  full-name match among the banding records not yet consumed first, and only when there is
  none a match in the two-token binomial bucket among those not yet consumed): the matched
  and the unmatched records of the result are the ones of these outcomes. The chosen
  banding records are pairwise different objects, one per matched record and in the same
  order, so a banding record is paired with at most one checklist record. The success flag
  is true for every input.
\<close>

theorem joinByScientificNameVariants_steps:
  "successJ (joinByScientificNameVariants heap es ibp opts) \<and>
   matched (joinByScientificNameVariants heap es ibp opts) =
     matchedOf heap (ebirdSorted es) (variantOutcomes heap es ibp opts) \<and>
   unmatchedEBird (joinByScientificNameVariants heap es ibp opts) =
     unmatchedOf (ebirdSorted es) (variantOutcomes heap es ibp opts) \<and>
   unmatchedIBP (joinByScientificNameVariants heap es ibp opts) =
     map heap (filter (\<lambda>b. b \<notin> set (chosenRefs (variantOutcomes heap es ibp opts))) ibp) \<and>
   distinct (chosenRefs (variantOutcomes heap es ibp opts)) \<and>
   map alpha4Code_j (matched (joinByScientificNameVariants heap es ibp opts)) =
     map (\<lambda>b. alpha4Code (heap b)) (chosenRefs (variantOutcomes heap es ibp opts)) \<and>
   unmatchedEBirdRecords (statsJ (joinByScientificNameVariants heap es ibp opts)) =
     length (unmatchedEBird (joinByScientificNameVariants heap es ibp opts)) \<and>
   unmatchedIBPRecords (statsJ (joinByScientificNameVariants heap es ibp opts)) =
     length (unmatchedIBP (joinByScientificNameVariants heap es ibp opts)) \<and>
   duplicateScientificNames (joinByScientificNameVariants heap es ibp opts) = []"
proof -
  have l: "length (variantOutcomes heap es ibp opts) = length (ebirdSorted es)"
    by (simp add: variantOutcomes_def length_specOutcomes)
  have d: "distinct (chosenRefs (variantOutcomes heap es ibp opts))"
    unfolding variantOutcomes_def by (rule chosen_distinct)
  show ?thesis
    using d matchedOf_alpha4[OF l, of heap]
    by (simp add: joinByScientificNameVariants_def Let_def variantLoop_outcomes setHas_def)
qed

text \<open>The scenario of the description: the checklist has \<open>Larus glaucoides kumlieni\<close>,
  the banding side \<open>Larus glaucoides\<close>; no banding record has the full name, and the
  binomial bucket gives the match.\<close>

theorem joinByScientificNameVariants_steps_witness:
  "\<not> (\<exists>b \<in> set [2]. scientificName_ibp (exHeap b) = scientificName exKumlien) \<and>
   successJ (joinByScientificNameVariants exHeap [exKumlien] [2] noJoinOptions) \<and>
   matched (joinByScientificNameVariants exHeap [exKumlien] [2] noJoinOptions) =
     [makeJoined exKumlien exICGU] \<and>
   unmatchedEBird (joinByScientificNameVariants exHeap [exKumlien] [2] noJoinOptions) = [] \<and>
   unmatchedIBP (joinByScientificNameVariants exHeap [exKumlien] [2] noJoinOptions) = []"
  using joinByScientificNameVariants_steps[of exHeap "[exKumlien]" "[2]" noJoinOptions]
  by (simp add: example_outcomes_gull example_sorted example_banding example_checklist)


text \<open>Only a record that the policy admits gets a banding record, and the policy admits
  whatever stands before an admitted record in the processing order.\<close>

lemma outcomes_skipped:
  "list_all2 (\<lambda>e out. (out = Skipped) = policySkips pol e) es (specOutcomes pol heap ibp c es)"
  by (induction es arbitrary: c) (simp_all split: option.splits)

lemma chosen_admitted:
  assumes "j < length es" "specOutcomes pol heap ibp c es ! j = Chosen b"
  shows "\<not> policySkips pol (es ! j)"
proof -
  have "(specOutcomes pol heap ibp c es ! j = Skipped) = policySkips pol (es ! j)"
    using list_all2_nthD[OF outcomes_skipped assms(1), of pol heap ibp c] .
  with assms(2) show ?thesis by simp
qed

lemma policySkips_rank:
  "rank e \<le> rank e' \<Longrightarrow> \<not> policySkips pol e' \<Longrightarrow> \<not> policySkips pol e"
  by (cases pol) (auto simp: policySkips_def rank_def split: if_splits)

lemma earlier_admitted:
  assumes "i < j" "j < length (ebirdSorted es)"
    and "\<not> policySkips pol (ebirdSorted es ! j)"
  shows "\<not> policySkips pol (ebirdSorted es ! i)"
proof -
  have "sorted (map rank (ebirdSorted es))" by (simp add: ebirdSorted_def)
  then have "map rank (ebirdSorted es) ! i \<le> map rank (ebirdSorted es) ! j"
    using assms(1,2) by (intro sorted_nth_mono) simp_all
  then have "rank (ebirdSorted es ! i) \<le> rank (ebirdSorted es ! j)"
    using assms(1,2) by simp
  from policySkips_rank[OF this assms(3)] show ?thesis .
qed

text \<open>
  Claim C4, as the code has it. The checklist records are processed in priority order,
  \<open>species\<close> before \<open>issf\<close> before every other category, and records of equal rank
  in the order of the input (the sort is stable): the processing order is the three blocks
  of the input one after the other, and a record of higher priority stands before every
  record of lower priority. The matched and unmatched records of the join are those of
  the outcomes in this order. A record that stands earlier is served first: when an
  earlier and a later record both match a banding record (same two-token binomial, which
  the same full name implies), the later record is paired with that banding record only if
  the earlier one is paired with another banding record, and with one of its own full name
  if it matched the contested one exactly.
\<close>

theorem variant_priority_order:
  "ebirdSorted es =
     filter (\<lambda>e. rank e = 0) es @ filter (\<lambda>e. rank e = 1) es @ filter (\<lambda>e. rank e = 2) es \<and>
   matched (joinByScientificNameVariants heap es ibp opts) =
     matchedOf heap (ebirdSorted es) (variantOutcomes heap es ibp opts) \<and>
   unmatchedEBird (joinByScientificNameVariants heap es ibp opts) =
     unmatchedOf (ebirdSorted es) (variantOutcomes heap es ibp opts) \<and>
   (i < length (ebirdSorted es) \<and> j < length (ebirdSorted es) \<and>
    rank (ebirdSorted es ! i) < rank (ebirdSorted es ! j) \<longrightarrow> i < j) \<and>
   (i < j \<and> j < length (ebirdSorted es) \<and>
    variantOutcomes heap es ibp opts ! j = Chosen b \<and>
    toBinomial (scientificName (ebirdSorted es ! i)) = toBinomial (scientificName_ibp (heap b)) \<longrightarrow>
    (\<exists>b'. variantOutcomes heap es ibp opts ! i = Chosen b' \<and> b' \<noteq> b \<and>
          (scientificName (ebirdSorted es ! i) = scientificName_ibp (heap b) \<longrightarrow>
           scientificName_ibp (heap b') = scientificName (ebirdSorted es ! i))))"
proof (intro conjI impI)
  show "ebirdSorted es =
     filter (\<lambda>e. rank e = 0) es @ filter (\<lambda>e. rank e = 1) es @ filter (\<lambda>e. rank e = 2) es"
    by (rule ebirdSorted_blocks)
next
  show "matched (joinByScientificNameVariants heap es ibp opts) =
     matchedOf heap (ebirdSorted es) (variantOutcomes heap es ibp opts)"
    by (simp add: joinByScientificNameVariants_def Let_def variantLoop_outcomes)
next
  show "unmatchedEBird (joinByScientificNameVariants heap es ibp opts) =
     unmatchedOf (ebirdSorted es) (variantOutcomes heap es ibp opts)"
    by (simp add: joinByScientificNameVariants_def Let_def variantLoop_outcomes)
next
  assume "i < length (ebirdSorted es) \<and> j < length (ebirdSorted es) \<and>
    rank (ebirdSorted es ! i) < rank (ebirdSorted es ! j)"
  then show "i < j" using ebirdSorted_rank_order[of i es j] by blast
next
  let ?pol = "optVariantPolicy (resolveOptions opts)"
  assume a: "i < j \<and> j < length (ebirdSorted es) \<and>
    variantOutcomes heap es ibp opts ! j = Chosen b \<and>
    toBinomial (scientificName (ebirdSorted es ! i)) = toBinomial (scientificName_ibp (heap b))"
  then have ij: "i < j" "j < length (ebirdSorted es)"
    and cj: "specOutcomes ?pol heap ibp [] (ebirdSorted es) ! j = Chosen b"
    and bin: "toBinomial (scientificName (ebirdSorted es ! i)) =
        toBinomial (scientificName_ibp (heap b))"
    by (simp_all add: variantOutcomes_def)
  from chosen_admitted[OF ij(2) cj] have "\<not> policySkips ?pol (ebirdSorted es ! j)" .
  from earlier_admitted[OF ij this] have adm: "\<not> policySkips ?pol (ebirdSorted es ! i)" .
  from earlier_served_first[OF ij cj adm bin]
  show "\<exists>b'. variantOutcomes heap es ibp opts ! i = Chosen b' \<and> b' \<noteq> b \<and>
          (scientificName (ebirdSorted es ! i) = scientificName_ibp (heap b) \<longrightarrow>
           scientificName_ibp (heap b') = scientificName (ebirdSorted es ! i))"
    unfolding variantOutcomes_def .
qed

text \<open>The theorem at the snow goose: the species record stands first and takes the first
  banding record of its name; the subspecies record is left the second one.\<close>

theorem variant_priority_order_witness:
  "rank (ebirdSorted [exLesserSnowGoose, exSnowGoose] ! 0) <
     rank (ebirdSorted [exLesserSnowGoose, exSnowGoose] ! 1) \<and>
   variantOutcomes exHeap [exLesserSnowGoose, exSnowGoose] [0, 1] noJoinOptions ! 1 = Chosen 1 \<and>
   variantOutcomes exHeap [exLesserSnowGoose, exSnowGoose] [0, 1] noJoinOptions ! 0 = Chosen 0 \<and>
   (\<exists>b'. variantOutcomes exHeap [exLesserSnowGoose, exSnowGoose] [0, 1] noJoinOptions ! 0 =
           Chosen b' \<and> b' \<noteq> 1 \<and>
         scientificName_ibp (exHeap b') =
           scientificName (ebirdSorted [exLesserSnowGoose, exSnowGoose] ! 0))"
proof -
  let ?es = "[exLesserSnowGoose, exSnowGoose]"
  have r: "rank (ebirdSorted ?es ! 0) < rank (ebirdSorted ?es ! 1)"
    by (simp add: example_sorted example_checklist)
  have c: "variantOutcomes exHeap ?es [0, 1] noJoinOptions ! 1 = Chosen 1"
    "variantOutcomes exHeap ?es [0, 1] noJoinOptions ! 0 = Chosen 0"
    by (simp_all add: example_outcomes_geese_Suc)
  have n: "scientificName (ebirdSorted ?es ! 0) = scientificName_ibp (exHeap 1)"
    by (simp add: example_sorted example_checklist example_banding)
  have l: "(1::nat) < length (ebirdSorted ?es)" "(0::nat) < 1"
    by (simp_all add: example_sorted)
  from variant_priority_order[of ?es exHeap "[0, 1]" noJoinOptions 0 1 1] l c(1) n
  have "\<exists>b'. variantOutcomes exHeap ?es [0, 1] noJoinOptions ! 0 = Chosen b' \<and> b' \<noteq> 1 \<and>
         scientificName_ibp (exHeap b') = scientificName (ebirdSorted ?es ! 0)"
    by simp
  with r c show ?thesis by blast
qed

text \<open>
  The claim as stated fails. The banding side has two records with the name
  \<open>Anser caerulescens\<close>; the species record of that name and the subspecies record
  \<open>Anser caerulescens caerulescens\<close> both match the second of them, and it is the
  subspecies record, of lower priority, that is paired with it: the species record is
  paired with the first.
\<close>

theorem variant_priority_counterexample:
  "rank exSnowGoose < rank exLesserSnowGoose \<and>
   scientificName exSnowGoose = scientificName_ibp (exHeap 1) \<and>
   toBinomial (scientificName exLesserSnowGoose) = toBinomial (scientificName_ibp (exHeap 1)) \<and>
   matched (joinByScientificNameVariants exHeap [exLesserSnowGoose, exSnowGoose] [0, 1]
      noJoinOptions) =
     [makeJoined exSnowGoose (exHeap 0), makeJoined exLesserSnowGoose (exHeap 1)] \<and>
   makeJoined exSnowGoose (exHeap 1) \<notin>
     set (matched (joinByScientificNameVariants exHeap [exLesserSnowGoose, exSnowGoose] [0, 1]
      noJoinOptions))"
proof -
  have m: "matched (joinByScientificNameVariants exHeap [exLesserSnowGoose, exSnowGoose] [0, 1]
      noJoinOptions) =
     [makeJoined exSnowGoose (exHeap 0), makeJoined exLesserSnowGoose (exHeap 1)]"
    by (simp add: joinByScientificNameVariants_def Let_def variantLoop_outcomes
        example_outcomes_geese_Suc example_sorted)
  have "makeJoined exSnowGoose (exHeap 1) \<noteq> makeJoined exSnowGoose (exHeap 0)"
    "makeJoined exSnowGoose (exHeap 1) \<noteq> makeJoined exLesserSnowGoose (exHeap 1)"
    by (simp_all add: makeJoined_def example_banding exSNGO_def exBLGO_def exSnowGoose_def
        exLesserSnowGoose_def)
  with m show ?thesis
    by (simp add: example_checklist example_banding example_binomials)
qed

subsection \<open>The variant policy\<close>

lemma foldl_variantStep_filter:
  "foldl (variantStep pol heap F B) st (filter (\<lambda>e. \<not> policySkips pol e) es) =
   foldl (variantStep pol heap F B) st es"
  by (induction es arbitrary: st) (simp_all add: variantStep_skip)

lemma ebirdSorted_filter: "ebirdSorted (filter P es) = filter P (ebirdSorted es)"
  by (simp add: ebirdSorted_def filter_sort)

lemma variantLoop_filter:
  "variantLoop heap (filter (admitted opts) es) ibp opts = variantLoop heap es ibp opts"
proof -
  have "filter (admitted opts) es =
      filter (\<lambda>e. \<not> policySkips (optVariantPolicy (resolveOptions opts)) e) es"
    by (simp add: admitted_def[abs_def])
  then show ?thesis
    by (simp add: variantLoop_def Let_def ebirdSorted_filter foldl_variantStep_filter)
qed

lemma unmatchedOf_admitted:
  "list_all (\<lambda>e. \<not> policySkips pol e) (unmatchedOf es (specOutcomes pol heap ibp c es))"
  by (induction es arbitrary: c) (simp_all split: option.splits)

lemma outcome_counts:
  "length (matchedOf heap es (specOutcomes pol heap ibp c es)) +
   length (unmatchedOf es (specOutcomes pol heap ibp c es)) =
   length (filter (\<lambda>e. \<not> policySkips pol e) es)"
  by (induction es arbitrary: c) (simp_all split: option.splits)

lemma join_filter_fields:
  "matched (joinByScientificNameVariants heap (filter (admitted opts) es) ibp opts) =
     matched (joinByScientificNameVariants heap es ibp opts)"
  "unmatchedEBird (joinByScientificNameVariants heap (filter (admitted opts) es) ibp opts) =
     unmatchedEBird (joinByScientificNameVariants heap es ibp opts)"
  "unmatchedIBP (joinByScientificNameVariants heap (filter (admitted opts) es) ibp opts) =
     unmatchedIBP (joinByScientificNameVariants heap es ibp opts)"
  by (simp_all add: joinByScientificNameVariants_def Let_def variantLoop_filter)

text \<open>
  Claim C10. The checklist records that the variant policy excludes have no effect on the
  lists of the result: the matched, unmatched-checklist and unmatched-banding lists are
  those of the join of the admitted records alone, so an excluded record is in neither
  list and consumes no banding record. Every unmatched checklist record is an admitted one,
  the matched and the unmatched checklist records together are as many as the admitted
  records, and the statistics still count every checklist record of the input.
\<close>

theorem variantPolicy_excluded_vanish:
  "matched (joinByScientificNameVariants heap es ibp opts) =
     matched (joinByScientificNameVariants heap (filter (admitted opts) es) ibp opts) \<and>
   unmatchedEBird (joinByScientificNameVariants heap es ibp opts) =
     unmatchedEBird (joinByScientificNameVariants heap (filter (admitted opts) es) ibp opts) \<and>
   unmatchedIBP (joinByScientificNameVariants heap es ibp opts) =
     unmatchedIBP (joinByScientificNameVariants heap (filter (admitted opts) es) ibp opts) \<and>
   list_all (admitted opts) (unmatchedEBird (joinByScientificNameVariants heap es ibp opts)) \<and>
   length (matched (joinByScientificNameVariants heap es ibp opts)) +
     length (unmatchedEBird (joinByScientificNameVariants heap es ibp opts)) =
     length (filter (admitted opts) es) \<and>
   totalEBirdRecords (statsJ (joinByScientificNameVariants heap es ibp opts)) = length es"
proof -
  have a: "admitted opts = (\<lambda>e. \<not> policySkips (optVariantPolicy (resolveOptions opts)) e)"
    by (simp add: admitted_def[abs_def])
  have "list_all (admitted opts)
      (unmatchedOf (ebirdSorted es) (variantOutcomes heap es ibp opts))"
    unfolding a variantOutcomes_def by (rule unmatchedOf_admitted)
  then have u: "list_all (admitted opts)
      (unmatchedEBird (joinByScientificNameVariants heap es ibp opts))"
    by (simp add: joinByScientificNameVariants_def Let_def variantLoop_outcomes)
  have "length (matchedOf heap (ebirdSorted es) (variantOutcomes heap es ibp opts)) +
      length (unmatchedOf (ebirdSorted es) (variantOutcomes heap es ibp opts)) =
      length (filter (admitted opts) es)"
    unfolding a variantOutcomes_def outcome_counts
    by (simp add: ebirdSorted_def filter_sort)
  then have l: "length (matched (joinByScientificNameVariants heap es ibp opts)) +
     length (unmatchedEBird (joinByScientificNameVariants heap es ibp opts)) =
     length (filter (admitted opts) es)"
    by (simp add: joinByScientificNameVariants_def Let_def variantLoop_outcomes)
  have t: "totalEBirdRecords (statsJ (joinByScientificNameVariants heap es ibp opts)) = length es"
    by (simp add: joinByScientificNameVariants_def Let_def)
  show ?thesis
    using u l t join_filter_fields[of heap opts es ibp] by simp
qed

text \<open>The theorem under the policy \<open>species\<close>: the subspecies record of the snow goose
  is excluded, the species record takes the first banding record and the second stays
  unmatched.\<close>

theorem variantPolicy_excluded_vanish_witness:
  "\<not> admitted speciesOnlyOptions exLesserSnowGoose \<and>
   matched (joinByScientificNameVariants exHeap [exLesserSnowGoose, exSnowGoose] [0, 1]
      speciesOnlyOptions) =
     matched (joinByScientificNameVariants exHeap [exSnowGoose] [0, 1] speciesOnlyOptions) \<and>
   unmatchedEBird (joinByScientificNameVariants exHeap [exLesserSnowGoose, exSnowGoose] [0, 1]
      speciesOnlyOptions) = [] \<and>
   unmatchedIBP (joinByScientificNameVariants exHeap [exLesserSnowGoose, exSnowGoose] [0, 1]
      speciesOnlyOptions) = [exBLGO] \<and>
   length (matched (joinByScientificNameVariants exHeap [exLesserSnowGoose, exSnowGoose] [0, 1]
      speciesOnlyOptions)) = 1 \<and>
   totalEBirdRecords (statsJ (joinByScientificNameVariants exHeap
      [exLesserSnowGoose, exSnowGoose] [0, 1] speciesOnlyOptions)) = 2"
proof -
  let ?es = "[exLesserSnowGoose, exSnowGoose]"
  have a: "\<not> admitted speciesOnlyOptions exLesserSnowGoose"
    "admitted speciesOnlyOptions exSnowGoose"
    by (simp_all add: admitted_def example_policies policySkips_def example_checklist)
  then have f: "filter (admitted speciesOnlyOptions) ?es = [exSnowGoose]" by simp
  have u: "unmatchedEBird (joinByScientificNameVariants exHeap ?es [0, 1] speciesOnlyOptions) = []"
    "unmatchedIBP (joinByScientificNameVariants exHeap ?es [0, 1] speciesOnlyOptions) = [exBLGO]"
    by (simp_all add: joinByScientificNameVariants_def Let_def variantLoop_outcomes
        example_outcomes_species_only_Suc example_sorted setHas_def example_banding)
  note t = variantPolicy_excluded_vanish[of exHeap ?es "[0, 1]" speciesOnlyOptions]
  from t have m: "matched (joinByScientificNameVariants exHeap ?es [0, 1] speciesOnlyOptions) =
      matched (joinByScientificNameVariants exHeap [exSnowGoose] [0, 1] speciesOnlyOptions)"
    unfolding f by (rule conjunct1)
  from t have "length (matched (joinByScientificNameVariants exHeap ?es [0, 1]
        speciesOnlyOptions)) +
      length (unmatchedEBird (joinByScientificNameVariants exHeap ?es [0, 1]
        speciesOnlyOptions)) = length [exSnowGoose]"
    unfolding f by blast
  then have l: "length (matched (joinByScientificNameVariants exHeap ?es [0, 1]
        speciesOnlyOptions)) = 1"
    unfolding u by simp
  from t have n: "totalEBirdRecords (statsJ (joinByScientificNameVariants exHeap ?es [0, 1]
        speciesOnlyOptions)) = 2"
    by simp
  from a(1) m u l n show ?thesis by blast
qed

end
